theory Spec2Isabelle
  imports Complex_Main "HOL-Library.Sublist"
begin

section \<open>Data model (lib/api.ts)\<close>

text \<open>
  JavaScript numbers are modelled as reals, with the cases of a zero divisor, an
  infinity or NaN written out as constructors of their own where the source divides.
  The tide statistics, whose outcome depends on it, round after every operation as
  binary64 does; the other quotients are left exact.
  A \<open>Date\<close> is its millisecond count (an integer). The string-literal union types of
  the TypeScript interfaces are datatypes, each with the function giving the literal
  the running program holds. Template literals that render a number keep the number
  unrendered, as a list of pieces.
\<close>

datatype piece = Str string | Num real | Fixed nat real

type_synonym template = "piece list"

datatype sensor_type = tide_gauge | weather_station | water_quality | seismic

datatype sensor_status = st_normal | st_warning | st_critical

datatype severity = low | medium | high | critical

fun severity_str :: "severity \<Rightarrow> string" where
  "severity_str low = ''low''"
| "severity_str medium = ''medium''"
| "severity_str high = ''high''"
| "severity_str critical = ''critical''"

datatype role = emergency_manager | government | ngo | fisherfolk | civil_defense

record location =
  lat :: real
  lng :: real
  name :: string

record SensorData =
  sd_id :: template
  sd_type :: sensor_type
  sd_location :: location
  sd_value :: real
  sd_unit :: string
  sd_timestamp :: int
  sd_status :: sensor_status

text \<open>
  The \<open>type\<close> of an alert is a string: the prediction path stores strings outside the
  declared union (cast with \<open>as any\<close>).
\<close>

record ThreatAlert =
  ta_id :: template
  ta_type :: string
  ta_severity :: severity
  ta_location :: location
  ta_description :: template
  ta_timestamp :: int
  ta_estimatedImpact :: int
  ta_affectedAreas :: "string list"

record User =
  u_id :: string
  u_name :: string
  u_email :: string
  u_role :: role
  u_organization :: string
  u_permissions :: "string list"

section \<open>Alert panel: the severity filter (AlertPanel.tsx)\<close>

definition filteredAlerts :: "string \<Rightarrow> ThreatAlert list \<Rightarrow> ThreatAlert list" where
  "filteredAlerts filterSeverity alerts =
     (if filterSeverity = ''all'' then alerts
      else filter (\<lambda>alert. severity_str (ta_severity alert) = filterSeverity) alerts)"

section \<open>Authentication stub (lib/api.ts, authenticateUser)\<close>

definition mockUsers :: "User list" where
  "mockUsers =
     [\<lparr>u_id = ''user_001'', u_name = ''Dr. Rajesh Kumar'',
       u_email = ''rajesh@emergency.gov.in'', u_role = emergency_manager,
       u_organization = ''National Disaster Management Authority'',
       u_permissions = [''view_all'', ''create_alerts'', ''manage_users'']\<rparr>,
      \<lparr>u_id = ''user_002'', u_name = ''Priya Sharma'',
       u_email = ''priya@coastal.ngo'', u_role = ngo,
       u_organization = ''Coastal Conservation Society'',
       u_permissions = [''view_data'', ''create_reports'']\<rparr>]"

text \<open>
  The value the promise resolves with; the delay before it is not modelled.
  \<open>find\<close> gives \<open>undefined\<close> when nothing matches, which \<open>|| null\<close> turns into null.
\<close>

definition authenticateUser :: "string \<Rightarrow> string \<Rightarrow> User option" where
  "authenticateUser email password = find (\<lambda>user. u_email user = email) mockUsers"

section \<open>Mock alerts (lib/api.ts, generateMockAlerts)\<close>

text \<open>
  \<open>clock\<close> gives the successive readings of the system clock: each alert reads it
  twice, for its timestamp and for its estimated impact.
\<close>

definition generateMockAlerts :: "(nat \<Rightarrow> int) \<Rightarrow> ThreatAlert list" where
  "generateMockAlerts clock =
     [\<lparr>ta_id = [Str ''alert_001''], ta_type = ''storm_surge'', ta_severity = high,
       ta_location = \<lparr>lat = 13.0827, lng = 80.2707, name = ''Chennai Coast''\<rparr>,
       ta_description = [Str ''Severe storm surge expected due to cyclonic activity''],
       ta_timestamp = clock 0, ta_estimatedImpact = clock 1 + 6 * 60 * 60 * 1000,
       ta_affectedAreas = [''Chennai Port'', ''Marina Beach'', ''Ennore Creek'']\<rparr>,
      \<lparr>ta_id = [Str ''alert_002''], ta_type = ''erosion'', ta_severity = medium,
       ta_location = \<lparr>lat = 15.2993, lng = 74.1240, name = ''Goa Coast''\<rparr>,
       ta_description = [Str ''Accelerated coastal erosion detected''],
       ta_timestamp = clock 2, ta_estimatedImpact = clock 3 + 24 * 60 * 60 * 1000,
       ta_affectedAreas = [''Calangute Beach'', ''Baga Beach'']\<rparr>]"

section \<open>Threshold threat detection (lib/api.ts, detectThreats)\<close>

text \<open>
  \<open>clock\<close> gives the successive readings of the system clock during the call:
  building one alert reads it three times (for the id, the timestamp and the
  estimated impact), so the loop threads the number of readings made so far.
  The delay before the scan is not modelled.
\<close>

definition stormSurgeThreat :: "(nat \<Rightarrow> int) \<Rightarrow> nat \<Rightarrow> SensorData \<Rightarrow> ThreatAlert" where
  "stormSurgeThreat clock k data =
     \<lparr>ta_id = [Str ''ml_threat_'', Num (of_int (clock k))],
      ta_type = ''storm_surge'',
      ta_severity = (if sd_value data > 3 then critical else high),
      ta_location = sd_location data,
      ta_description =
        [Str ''Abnormal tide level detected: '', Num (sd_value data), Str (sd_unit data)],
      ta_timestamp = clock (k + 1),
      ta_estimatedImpact = clock (k + 2) + 2 * 60 * 60 * 1000,
      ta_affectedAreas = [name (sd_location data) @ '' vicinity'']\<rparr>"

definition cycloneThreat :: "(nat \<Rightarrow> int) \<Rightarrow> nat \<Rightarrow> SensorData \<Rightarrow> ThreatAlert" where
  "cycloneThreat clock k data =
     \<lparr>ta_id = [Str ''ml_threat_'', Num (of_int (clock k)), Str ''_wind''],
      ta_type = ''cyclone'',
      ta_severity = (if sd_value data > 80 then critical else high),
      ta_location = sd_location data,
      ta_description =
        [Str ''High wind speeds detected: '', Num (sd_value data), Str (sd_unit data)],
      ta_timestamp = clock (k + 1),
      ta_estimatedImpact = clock (k + 2) + 4 * 60 * 60 * 1000,
      ta_affectedAreas = [name (sd_location data) @ '' region'']\<rparr>"

text \<open>The body of the \<open>forEach\<close>: two independent tests, each pushing one alert.\<close>

definition detectThreats_step ::
  "(nat \<Rightarrow> int) \<Rightarrow> SensorData \<Rightarrow> nat \<times> ThreatAlert list \<Rightarrow> nat \<times> ThreatAlert list" where
  "detectThreats_step clock data st =
     (let st1 = (if sd_type data = tide_gauge \<and> sd_value data > 2.5
                 then (fst st + 3, snd st @ [stormSurgeThreat clock (fst st) data])
                 else st)
      in if sd_type data = weather_station \<and> sd_value data > 60
         then (fst st1 + 3, snd st1 @ [cycloneThreat clock (fst st1) data])
         else st1)"

fun detectThreats_loop ::
  "(nat \<Rightarrow> int) \<Rightarrow> SensorData list \<Rightarrow> nat \<times> ThreatAlert list \<Rightarrow> nat \<times> ThreatAlert list" where
  "detectThreats_loop clock [] st = st"
| "detectThreats_loop clock (data # rest) st =
     detectThreats_loop clock rest (detectThreats_step clock data st)"

definition detectThreats :: "(nat \<Rightarrow> int) \<Rightarrow> SensorData list \<Rightarrow> ThreatAlert list" where
  "detectThreats clock sensorData = snd (detectThreats_loop clock sensorData (0, []))"

section \<open>Historical data (lib/api.ts, getHistoricalData)\<close>





section \<open>JavaScript values the heuristics compute with\<close>

text \<open>
  The result of a division or of \<open>Math.max\<close>/\<open>Math.min\<close> where the divisor may be
  zero or the argument list empty: a real, an infinity or NaN.
\<close>

datatype jsnum = Finite real | PosInfinity | NegInfinity | NaN

text \<open>\<open>n / d\<close> for a divisor that is never negative zero (a length, a square root).\<close>

definition js_div :: "real \<Rightarrow> real \<Rightarrow> jsnum" where
  "js_div n d =
     (if d = 0 then (if n = 0 then NaN else if n > 0 then PosInfinity else NegInfinity)
      else Finite (n / d))"

fun js_abs :: "jsnum \<Rightarrow> jsnum" where
  "js_abs (Finite r) = Finite \<bar>r\<bar>"
| "js_abs PosInfinity = PosInfinity"
| "js_abs NegInfinity = PosInfinity"
| "js_abs NaN = NaN"

text \<open>\<open>x > c\<close> for a finite \<open>c\<close>: false on NaN.\<close>

fun js_gt :: "jsnum \<Rightarrow> real \<Rightarrow> bool" where
  "js_gt (Finite r) c = (r > c)"
| "js_gt PosInfinity c = True"
| "js_gt NegInfinity c = False"
| "js_gt NaN c = False"

text \<open>\<open>x < c\<close> for a finite \<open>c\<close>: false on NaN.\<close>

fun js_lt :: "jsnum \<Rightarrow> real \<Rightarrow> bool" where
  "js_lt (Finite r) c = (r < c)"
| "js_lt PosInfinity c = False"
| "js_lt NegInfinity c = True"
| "js_lt NaN c = False"

text \<open>\<open>x.toFixed(n)\<close>, with the digits of a finite value left unrendered.\<close>

fun toFixed :: "nat \<Rightarrow> jsnum \<Rightarrow> piece" where
  "toFixed n (Finite r) = Fixed n r"
| "toFixed n PosInfinity = Str ''Infinity''"
| "toFixed n NegInfinity = Str ''-Infinity''"
| "toFixed n NaN = Str ''NaN''"

section \<open>Binary64 arithmetic\<close>

text \<open>
  The tide statistics round after every operation, as the program does: a finite number
  is the real value of a double, and \<open>round64\<close> takes the exact result of an operation
  to the nearest double, ties to the even significand, with gradual underflow and
  overflow to an infinity. The sign of a zero is not kept; the divisors below (a length,
  a square root) are never negative zero, and the quotients are read through
  \<open>Math.abs\<close>.
\<close>

definition pow2 :: "int \<Rightarrow> real" where
  "pow2 e = (if 0 \<le> e then 2 ^ nat e else 1 / 2 ^ nat (- e))"

text \<open>Rounding to the nearest integer, a tie going to the even one.\<close>

definition rne :: "real \<Rightarrow> int" where
  "rne x =
     (let f = \<lfloor>x\<rfloor>
      in if x - of_int f < 1 / 2 then f
         else if 1 / 2 < x - of_int f then f + 1
         else if even f then f else f + 1)"

text \<open>The exponent of the binade of \<open>x\<close>, not below that of the subnormal numbers.\<close>

definition binade :: "real \<Rightarrow> int" where
  "binade x = max \<lfloor>log 2 \<bar>x\<bar>\<rfloor> (- 1022)"

definition round64 :: "real \<Rightarrow> jsnum" where
  "round64 x =
     (if x = 0 then Finite 0
      else (let q = pow2 (binade x - 52);
                r = of_int (rne (x / q)) * q
            in if pow2 1024 \<le> \<bar>r\<bar>
               then (if 0 < x then PosInfinity else NegInfinity)
               else Finite r))"

text \<open>The real value of the double a decimal literal of the source denotes.\<close>

definition lit64 :: "real \<Rightarrow> real" where
  "lit64 x = (case round64 x of Finite r \<Rightarrow> r | _ \<Rightarrow> 0)"

fun js_neg :: "jsnum \<Rightarrow> jsnum" where
  "js_neg (Finite a) = Finite (- a)"
| "js_neg PosInfinity = NegInfinity"
| "js_neg NegInfinity = PosInfinity"
| "js_neg NaN = NaN"

fun js_add :: "jsnum \<Rightarrow> jsnum \<Rightarrow> jsnum" where
  "js_add (Finite a) (Finite b) = round64 (a + b)"
| "js_add NaN y = NaN"
| "js_add x NaN = NaN"
| "js_add PosInfinity NegInfinity = NaN"
| "js_add NegInfinity PosInfinity = NaN"
| "js_add PosInfinity y = PosInfinity"
| "js_add x PosInfinity = PosInfinity"
| "js_add NegInfinity y = NegInfinity"
| "js_add x NegInfinity = NegInfinity"

definition js_sub :: "jsnum \<Rightarrow> jsnum \<Rightarrow> jsnum" where
  "js_sub x y = js_add x (js_neg y)"

text \<open>\<open>Math.pow(x, 2)\<close>, taken to be the correctly rounded square.\<close>

fun js_square :: "jsnum \<Rightarrow> jsnum" where
  "js_square (Finite a) = round64 (a * a)"
| "js_square PosInfinity = PosInfinity"
| "js_square NegInfinity = PosInfinity"
| "js_square NaN = NaN"

text \<open>\<open>x / y\<close>, for a \<open>y\<close> that is not negative zero.\<close>

fun js_divide :: "jsnum \<Rightarrow> jsnum \<Rightarrow> jsnum" where
  "js_divide (Finite a) (Finite b) =
     (if b = 0 then (if a = 0 then NaN else if 0 < a then PosInfinity else NegInfinity)
      else round64 (a / b))"
| "js_divide NaN y = NaN"
| "js_divide x NaN = NaN"
| "js_divide (Finite a) y = Finite 0"
| "js_divide PosInfinity (Finite b) = (if 0 \<le> b then PosInfinity else NegInfinity)"
| "js_divide NegInfinity (Finite b) = (if 0 \<le> b then NegInfinity else PosInfinity)"
| "js_divide x y = NaN"

text \<open>\<open>Math.sqrt(x)\<close>, correctly rounded.\<close>

fun js_sqrt :: "jsnum \<Rightarrow> jsnum" where
  "js_sqrt (Finite a) = (if a < 0 then NaN else round64 (sqrt a))"
| "js_sqrt PosInfinity = PosInfinity"
| "js_sqrt NegInfinity = NaN"
| "js_sqrt NaN = NaN"

text \<open>\<open>x * k\<close> for a positive double \<open>k\<close>, and \<open>Math.min(x, cap)\<close> for a finite \<open>cap\<close>.\<close>

fun js_times :: "jsnum \<Rightarrow> real \<Rightarrow> jsnum" where
  "js_times (Finite r) k = round64 (r * k)"
| "js_times PosInfinity k = PosInfinity"
| "js_times NegInfinity k = NegInfinity"
| "js_times NaN k = NaN"

fun js_min :: "jsnum \<Rightarrow> real \<Rightarrow> jsnum" where
  "js_min (Finite r) cap = Finite (min r cap)"
| "js_min PosInfinity cap = Finite cap"
| "js_min NegInfinity cap = NegInfinity"
| "js_min NaN cap = NaN"

section \<open>Strings\<close>

text \<open>
  Strings are modelled with their ASCII content: \<open>toLowerCase\<close> maps the letters A to
  Z, and the class \<open>\s\<close> of a regular expression is the six ASCII white-space
  characters. A character beyond ASCII in a literal is the bytes the source file holds.
\<close>

definition toLowerChar :: "char \<Rightarrow> char" where
  "toLowerChar c =
     (case map_of (zip ''ABCDEFGHIJKLMNOPQRSTUVWXYZ'' ''abcdefghijklmnopqrstuvwxyz'') c of
        Some l \<Rightarrow> l
      | None \<Rightarrow> c)"

definition toLowerCase :: "string \<Rightarrow> string" where
  "toLowerCase s = map toLowerChar s"

definition isSpace :: "char \<Rightarrow> bool" where
  "isSpace c = (c \<in> set [CHR '' '', CHR 0x09, CHR 0x0A, CHR 0x0B, CHR 0x0C, CHR 0x0D])"

text \<open>\<open>s.replace(/\s+/g, '_')\<close>: every maximal run of white space becomes one underscore.\<close>

function replaceSpaces :: "string \<Rightarrow> string" where
  "replaceSpaces [] = []"
| "replaceSpaces (c # cs) =
     (if isSpace c then CHR ''_'' # replaceSpaces (dropWhile isSpace cs)
      else c # replaceSpaces cs)"
  by pat_completeness auto
termination
  by (relation "measure length") (auto simp: less_Suc_eq_le length_dropWhile_le)

text \<open>\<open>s.includes(sub)\<close>: \<open>sub\<close> occurs in \<open>s\<close> as a contiguous substring.\<close>

fun includes_str :: "string \<Rightarrow> string \<Rightarrow> bool" where
  "includes_str [] sub = (sub = [])"
| "includes_str (c # cs) sub =
     (take (length sub) (c # cs) = sub \<or> includes_str cs sub)"

text \<open>\<open>Math.max(...xs)\<close> and \<open>Math.min(...xs)\<close>; on no arguments they are the infinities.\<close>

fun Math_max :: "real list \<Rightarrow> jsnum" where
  "Math_max [] = NegInfinity"
| "Math_max (x # xs) = Finite (foldl max x xs)"

fun Math_min :: "real list \<Rightarrow> jsnum" where
  "Math_min [] = PosInfinity"
| "Math_min (x # xs) = Finite (foldl min x xs)"

section \<open>Anomaly detection (MLThreatDetection.tsx, detectAnomalies)\<close>

record MLPrediction =
  p_threatType :: string
  p_probability :: jsnum
  p_confidence :: jsnum
  p_location :: string
  p_features :: "template list"

subsection \<open>Grouping by location name\<close>

text \<open>
  \<open>locationGroups\<close> is an ordinary object used as a dictionary. Its own properties are
  kept as an association list in insertion order. A location name that is a property
  of \<open>Object.prototype\<close> reads as a truthy value that is no array, so the call of
  \<open>push\<close> on it throws a TypeError.
\<close>

datatype js_error = TypeError

definition objectPrototypeKeys :: "string list" where
  "objectPrototypeKeys =
     [''constructor'', ''__defineGetter__'', ''__defineSetter__'', ''hasOwnProperty'',
      ''__lookupGetter__'', ''__lookupSetter__'', ''isPrototypeOf'',
      ''propertyIsEnumerable'', ''toString'', ''valueOf'', ''__proto__'',
      ''toLocaleString'']"

fun pushGroup ::
  "string \<Rightarrow> SensorData \<Rightarrow> (string \<times> SensorData list) list
     \<Rightarrow> (string \<times> SensorData list) list" where
  "pushGroup key sensor [] = [(key, [sensor])]"
| "pushGroup key sensor ((k, v) # rest) =
     (if k = key then (k, v @ [sensor]) # rest
      else (k, v) # pushGroup key sensor rest)"

fun locationGroups ::
  "SensorData list \<Rightarrow> (string \<times> SensorData list) list
     \<Rightarrow> js_error + (string \<times> SensorData list) list" where
  "locationGroups [] acc = Inr acc"
| "locationGroups (sensor # rest) acc =
     (let key = name (sd_location sensor)
      in if key \<in> set objectPrototypeKeys then Inl TypeError
         else locationGroups rest (pushGroup key sensor acc))"

text \<open>
  \<open>Object.entries\<close> lists the keys that are array indices (canonical decimal numerals
  below \<open>2^32 - 1\<close>) first, in ascending numeric order, then the other keys in
  insertion order.
\<close>

definition isDigit :: "char \<Rightarrow> bool" where
  "isDigit c = (c \<in> set ''0123456789'')"

definition digitValue :: "char \<Rightarrow> nat" where
  "digitValue c = of_char c - 48"

definition decimalValue :: "string \<Rightarrow> nat" where
  "decimalValue s = foldl (\<lambda>n c. 10 * n + digitValue c) 0 s"

definition isArrayIndex :: "string \<Rightarrow> bool" where
  "isArrayIndex s =
     (s \<noteq> [] \<and> list_all isDigit s \<and> (s = ''0'' \<or> hd s \<noteq> CHR ''0'')
      \<and> decimalValue s < 2 ^ 32 - 1)"

definition objectEntries :: "(string \<times> 'a) list \<Rightarrow> (string \<times> 'a) list" where
  "objectEntries obj =
     sort_key (\<lambda>e. decimalValue (fst e)) (filter (\<lambda>e. isArrayIndex (fst e)) obj)
     @ filter (\<lambda>e. \<not> isArrayIndex (fst e)) obj"

subsection \<open>The three tests on one location group\<close>

text \<open>\<open>xs.reduce((sum, s) => sum + f(s), 0)\<close>.\<close>

definition reduce_sum :: "('a \<Rightarrow> real) \<Rightarrow> 'a list \<Rightarrow> real" where
  "reduce_sum f xs = foldl (\<lambda>sum s. sum + f s) 0 xs"

text \<open>\<open>xs.reduce((sum, s) => sum + f(s), 0)\<close> in binary64.\<close>

definition reduce_add :: "('a \<Rightarrow> jsnum) \<Rightarrow> 'a list \<Rightarrow> jsnum" where
  "reduce_add f xs = foldl (\<lambda>sum s. js_add sum (f s)) (Finite 0) xs"

definition avgTide_of :: "SensorData list \<Rightarrow> jsnum" where
  "avgTide_of tideData =
     js_divide (reduce_add (\<lambda>s. Finite (sd_value s)) tideData)
       (Finite (real (length tideData)))"

definition tideStdDev_of :: "SensorData list \<Rightarrow> jsnum" where
  "tideStdDev_of tideData =
     js_sqrt (js_divide
       (reduce_add (\<lambda>s. js_square (js_sub (Finite (sd_value s)) (avgTide_of tideData)))
          tideData)
       (Finite (real (length tideData))))"

definition zScore_of :: "SensorData list \<Rightarrow> SensorData \<Rightarrow> jsnum" where
  "zScore_of tideData sensor =
     js_abs (js_divide (js_sub (Finite (sd_value sensor)) (avgTide_of tideData))
               (tideStdDev_of tideData))"

definition tideAnomalies :: "string \<Rightarrow> SensorData list \<Rightarrow> MLPrediction list" where
  "tideAnomalies location tideData =
     (if length tideData > 0
      then concat (map (\<lambda>sensor.
             let zScore = zScore_of tideData sensor
             in if js_gt zScore 2
                then [\<lparr>p_threatType = (if js_lt (avgTide_of tideData) (sd_value sensor)
                                        then ''Storm Surge Risk'' else ''Unusual Low Tide''),
                       p_probability = js_min (js_times zScore (lit64 0.3)) (lit64 0.95),
                       p_confidence = js_min (js_times zScore (lit64 0.25)) (lit64 0.9),
                       p_location = location,
                       p_features = [[Str ''Tide level: '', Num (sd_value sensor), Str ''m''],
                                     [Str ''Z-score: '', toFixed 2 zScore]]\<rparr>]
                else []) tideData)
      else [])"

definition windAnomalies :: "string \<Rightarrow> SensorData list \<Rightarrow> MLPrediction list" where
  "windAnomalies location windData =
     (if length windData > 0
      then (case Math_max (map sd_value windData) of
              Finite maxWind \<Rightarrow>
                if maxWind > 60
                then [\<lparr>p_threatType = ''Cyclonic Activity'',
                       p_probability = Finite (min ((maxWind - 60) / 40) 0.95),
                       p_confidence = Finite (min ((maxWind - 50) / 50) 0.9),
                       p_location = location,
                       p_features = [[Str ''Wind speed: '', Num maxWind, Str '' km/h''],
                                     [Str ''Sustained high winds detected'']]\<rparr>]
                else []
            | _ \<Rightarrow> [])
      else [])"

definition qualityAnomalies :: "string \<Rightarrow> SensorData list \<Rightarrow> MLPrediction list" where
  "qualityAnomalies location qualityData =
     (if length qualityData > 0
      then (case Math_min (map sd_value qualityData) of
              Finite minQuality \<Rightarrow>
                if minQuality < 40
                then [\<lparr>p_threatType = ''Water Pollution'',
                       p_probability = Finite (min ((40 - minQuality) / 40) 0.95),
                       p_confidence = Finite (min ((50 - minQuality) / 50) 0.85),
                       p_location = location,
                       p_features = [[Str ''Water quality: '', Num minQuality, Str '' ppm''],
                                     [Str ''Below safety threshold'']]\<rparr>]
                else []
            | _ \<Rightarrow> [])
      else [])"

text \<open>The body of the \<open>forEach\<close> over the entries: one location group.\<close>

definition locationAnomalies :: "string \<Rightarrow> SensorData list \<Rightarrow> MLPrediction list" where
  "locationAnomalies location sensors =
     (let tideData = filter (\<lambda>s. sd_type s = tide_gauge) sensors;
          windData = filter (\<lambda>s. sd_type s = weather_station) sensors;
          qualityData = filter (\<lambda>s. sd_type s = water_quality) sensors
      in tideAnomalies location tideData
         @ windAnomalies location windData
         @ qualityAnomalies location qualityData)"

definition detectAnomalies :: "SensorData list \<Rightarrow> js_error + MLPrediction list" where
  "detectAnomalies data =
     (case locationGroups data [] of
        Inl e \<Rightarrow> Inl e
      | Inr groups \<Rightarrow>
          Inr (concat (map (\<lambda>(location, sensors). locationAnomalies location sensors)
                        (objectEntries groups))))"

section \<open>Alerts from predictions (MLThreatDetection.tsx, runPredictions)\<close>

text \<open>\<open>x * k\<close> for a constant \<open>k > 0\<close>.\<close>

fun js_scale :: "jsnum \<Rightarrow> real \<Rightarrow> jsnum" where
  "js_scale (Finite r) k = Finite (r * k)"
| "js_scale PosInfinity k = PosInfinity"
| "js_scale NegInfinity k = NegInfinity"
| "js_scale NaN k = NaN"

text \<open>
  \<open>clock\<close> gives the successive readings of the system clock and \<open>rnd\<close> the successive
  values of \<open>Math.random().toString(36).substr(2, 9)\<close>; \<open>k\<close> counts the alerts built so
  far, each of which reads the clock three times and the random source once.
\<close>

definition predictionThreat ::
  "(nat \<Rightarrow> int) \<Rightarrow> (nat \<Rightarrow> string) \<Rightarrow> nat \<Rightarrow> MLPrediction \<Rightarrow> location \<Rightarrow> ThreatAlert" where
  "predictionThreat clock rnd k prediction location =
     \<lparr>ta_id = [Str ''ml_'', Num (of_int (clock (3 * k))), Str ''_'', Str (rnd k)],
      ta_type = replaceSpaces (toLowerCase (p_threatType prediction)),
      ta_severity = (if js_gt (p_probability prediction) 0.9 then critical
                     else if js_gt (p_probability prediction) 0.8 then high
                     else medium),
      ta_location = location,
      ta_description =
        [Str ''ML detected '', Str (p_threatType prediction), Str '' with '',
         toFixed 1 (js_scale (p_probability prediction) 100), Str ''% probability''],
      ta_timestamp = clock (3 * k + 1),
      ta_estimatedImpact = clock (3 * k + 2) + 4 * 60 * 60 * 1000,
      ta_affectedAreas = [name location]\<rparr>"

text \<open>
  The \<open>forEach\<close> over the predictions. The state is the number of alerts built and the
  list of alerts handed to \<open>onThreatDetected\<close> so far (the callback is taken to return
  normally).
\<close>

fun runPredictions_loop ::
  "(nat \<Rightarrow> int) \<Rightarrow> (nat \<Rightarrow> string) \<Rightarrow> SensorData list \<Rightarrow> MLPrediction list
     \<Rightarrow> nat \<times> ThreatAlert list \<Rightarrow> nat \<times> ThreatAlert list" where
  "runPredictions_loop clock rnd sensorData [] st = st"
| "runPredictions_loop clock rnd sensorData (prediction # rest) st =
     runPredictions_loop clock rnd sensorData rest
       (if js_gt (p_probability prediction) 0.7
        then (case find (\<lambda>s. name (sd_location s) = p_location prediction) sensorData of
                Some s \<Rightarrow>
                  (fst st + 1,
                   snd st @ [predictionThreat clock rnd (fst st) prediction (sd_location s)])
              | None \<Rightarrow> st)
        else st)"

text \<open>An exception of \<open>detectAnomalies\<close> is caught and logged: no alert is handed on.\<close>

definition runPredictions ::
  "(nat \<Rightarrow> int) \<Rightarrow> (nat \<Rightarrow> string) \<Rightarrow> SensorData list \<Rightarrow> ThreatAlert list" where
  "runPredictions clock rnd sensorData =
     (case detectAnomalies sensorData of
        Inl e \<Rightarrow> []
      | Inr anomalies \<Rightarrow> snd (runPredictions_loop clock rnd sensorData anomalies (0, [])))"

text \<open>
  The effect that runs when the readings change: nothing happens while the model is
  not trained yet (\<open>model\<close> is null) or there are no readings.
\<close>

definition predictionEffect ::
  "(nat \<Rightarrow> int) \<Rightarrow> (nat \<Rightarrow> string) \<Rightarrow> bool \<Rightarrow> SensorData list \<Rightarrow> ThreatAlert list" where
  "predictionEffect clock rnd modelLoaded sensorData =
     (if \<not> modelLoaded \<or> length sensorData = 0 then []
      else runPredictions clock rnd sensorData)"

section \<open>Chatbot replies (ChatBot.tsx, generateResponse)\<close>

text \<open>\<open>[...new Set(xs)]\<close> keeps the first occurrence of each element.\<close>

definition uniqueInOrder :: "'a list \<Rightarrow> 'a list" where
  "uniqueInOrder xs = rev (remdups (rev xs))"

fun join :: "string \<Rightarrow> string list \<Rightarrow> string" where
  "join sep [] = []"
| "join sep [x] = x"
| "join sep (x # y # ys) = x @ sep @ join sep (y # ys)"

definition defaultResponses :: "string list" where
  "defaultResponses =
     [''I'' @ [CHR 0x27] @ ''m analyzing the coastal data to provide you with the most accurate information. Could you be more specific about what you'' @ [CHR 0x27] @ ''d like to know?'',
      ''Based on the current sensor readings, I can help you understand various aspects of coastal conditions. What specific data interests you?'',
      ''I have access to real-time data from multiple coastal monitoring stations. How can I assist with your coastal threat analysis?'']"

text \<open>
  \<open>rnd\<close> is the value of \<open>Math.random()\<close>, read in the last branch only. In the reply
  to a request for help, the characters beyond ASCII that the source file puts before
  each item are written as the bytes the file holds.
\<close>

definition generateResponse ::
  "real \<Rightarrow> SensorData list \<Rightarrow> ThreatAlert list \<Rightarrow> string \<Rightarrow> template" where
  "generateResponse rnd sensorData alerts userMessage =
     (let message = toLowerCase userMessage
      in if includes_str message ''tide'' \<or> includes_str message ''water level'' then
           (let tideData = filter (\<lambda>s. sd_type s = tide_gauge) sensorData;
                avgTide = js_div (reduce_sum sd_value tideData) (real (length tideData))
            in [Str ''Current average tide level is '', toFixed 2 avgTide, Str '' meters. '',
                Str (if list_ex (\<lambda>s. sd_status s \<noteq> st_normal) tideData
                     then ''Some stations are showing abnormal readings that require attention.''
                     else ''All tide gauges are operating within normal parameters.'')])
         else if includes_str message ''wind'' \<or> includes_str message ''weather'' then
           (let weatherData = filter (\<lambda>s. sd_type s = weather_station) sensorData;
                maxWind = Math_max (map sd_value weatherData)
            in [Str ''Current maximum wind speed is '', toFixed 1 maxWind, Str '' km/h. '',
                Str (if js_gt maxWind 50
                     then ''High wind conditions detected - monitoring for potential storm development.''
                     else ''Wind conditions are within normal ranges.'')])
         else if includes_str message ''alert'' \<or> includes_str message ''threat'' then
           (if length alerts = 0
            then [Str ''No active threats detected. All coastal monitoring systems are showing normal conditions.'']
            else (let criticalAlerts = length (filter (\<lambda>a. ta_severity a = critical) alerts)
                  in [Str ''Currently tracking '', Num (real (length alerts)),
                      Str '' active alerts. '']
                     @ (if criticalAlerts > 0
                        then [Num (real criticalAlerts),
                              Str '' are marked as critical and require immediate attention.'']
                        else [Str ''All alerts are at manageable levels.''])))
         else if includes_str message ''quality'' \<or> includes_str message ''pollution'' then
           (let qualityData = filter (\<lambda>s. sd_type s = water_quality) sensorData;
                avgQuality = js_div (reduce_sum sd_value qualityData) (real (length qualityData))
            in [Str ''Average water quality index is '', toFixed 1 avgQuality, Str '' ppm. '',
                Str (if js_lt avgQuality 50
                     then ''Some areas showing concerning pollution levels.''
                     else ''Water quality is within acceptable parameters.'')])
         else if includes_str message ''location'' \<or> includes_str message ''where'' then
           (let locations = uniqueInOrder (map (\<lambda>s. name (sd_location s)) sensorData)
            in [Str (''I'' @ [CHR 0x27] @ ''m monitoring ''), Num (real (length locations)),
                Str '' coastal locations: '', Str (join '', '' locations),
                Str ''. Each location has multiple sensor types providing real-time data.''])
         else if includes_str message ''prediction'' \<or> includes_str message ''forecast'' then
           [Str (''Based on current patterns, I'' @ [CHR 0x27] @ ''m analyzing tidal cycles, weather trends, and historical data to predict potential coastal threats. The ML models show varying confidence levels for different threat types across monitored locations.'')]
         else if includes_str message ''help'' \<or> includes_str message ''what can you'' then
           [Str (''I can help you with: ''
                 @ [CHR 0xC3, CHR 0xB0, CHR 0xC5, CHR 0xB8, CHR 0xE2, CHR 0x80, CHR 0x9C, CHR 0xC5, CHR 0xA0]
                 @ '' Real-time sensor data analysis, ''
                 @ [CHR 0xC3, CHR 0xB0, CHR 0xC5, CHR 0xB8, CHR 0xC5, CHR 0x92, CHR 0xC5, CHR 0xA0]
                 @ '' Tide and weather monitoring, ''
                 @ [CHR 0xC3, CHR 0xA2, CHR 0xC5, CHR 0xA1, CHR 0xC2, CHR 0xA0, CHR 0xC3, CHR 0xAF, CHR 0xC2, CHR 0xB8]
                 @ '' Threat alert explanations, ''
                 @ [CHR 0xC3, CHR 0xB0, CHR 0xC5, CHR 0xB8, CHR 0xE2, CHR 0x80, CHR 0x9C, CHR 0xCB, CHR 0x86]
                 @ '' Historical trend analysis, ''
                 @ [CHR 0xC3, CHR 0xB0, CHR 0xC5, CHR 0xB8, CHR 0xC5, CHR 0xBD, CHR 0xC2, CHR 0xAF]
                 @ '' ML prediction insights, and ''
                 @ [CHR 0xC3, CHR 0xB0, CHR 0xC5, CHR 0xB8, CHR 0xE2, CHR 0x80, CHR 0x9C]
                 @ '' Location-specific information. Just ask me about any coastal monitoring topic!'')]
         else (let i = nat \<lfloor>rnd * real (length defaultResponses)\<rfloor>
               in if i < length defaultResponses then [Str (defaultResponses ! i)]
                  else [Str ''undefined'']))"

section \<open>Push channel (lib/api.ts, connectWebSocket)\<close>

text \<open>
  The timers of the page are kept as the list of the interval timers installed so far.
  Time is in milliseconds; a timer set at time \<open>it_start\<close> with delay \<open>it_delay\<close> runs
  its action at \<open>it_start + it_delay\<close>, \<open>it_start + 2 * it_delay\<close> and so on (the nominal
  schedule of \<open>setInterval\<close>). One action hands a newly generated reading to
  \<open>onDataUpdate\<close>; the other hands an alert to \<open>onAlertUpdate\<close> when a random draw
  exceeds 0.95.
\<close>

datatype timer_action = deliverReading | maybeDeliverAlert

record interval_timer =
  it_start :: nat
  it_delay :: nat
  it_action :: timer_action

text \<open>A call at time \<open>now\<close>: two more timers, whatever is installed already.\<close>

definition connectWebSocket :: "nat \<Rightarrow> interval_timer list \<Rightarrow> interval_timer list" where
  "connectWebSocket now timers =
     timers @ [\<lparr>it_start = now, it_delay = 5000, it_action = deliverReading\<rparr>,
               \<lparr>it_start = now, it_delay = 10000, it_action = maybeDeliverAlert\<rparr>]"

definition fires :: "interval_timer \<Rightarrow> nat \<Rightarrow> bool" where
  "fires t now = (it_start t < now \<and> (now - it_start t) mod it_delay t = 0)"

text \<open>The number of calls of \<open>onDataUpdate\<close> at the instant \<open>now\<close>.\<close>

definition readingDeliveries :: "interval_timer list \<Rightarrow> nat \<Rightarrow> nat" where
  "readingDeliveries timers now =
     length (filter (\<lambda>t. it_action t = deliverReading \<and> fires t now) timers)"

text \<open>The number of calls of \<open>onDataUpdate\<close> after \<open>a\<close> and up to \<open>b\<close>.\<close>

definition readingDeliveriesIn :: "interval_timer list \<Rightarrow> nat \<Rightarrow> nat \<Rightarrow> nat" where
  "readingDeliveriesIn timers a b =
     sum_list (map (readingDeliveries timers) [Suc a..<Suc b])"

text \<open>Subscriptions made one after the other, at the given times.\<close>

definition subscribeAt :: "nat list \<Rightarrow> interval_timer list" where
  "subscribeAt instants = foldl (\<lambda>timers now. connectWebSocket now timers) [] instants"

section \<open>Inputs and projections the statements use\<close>

text \<open>
  None of these is part of the source. \<open>addTideOffset c\<close> is the change of input the
  offset-invariance statement is about: the value of a tide reading grows by \<open>c\<close>, other
  readings stay (the new values are the inputs as given, so this sum is exact). \<open>predictionCore\<close> is a prediction without its feature strings (which
  print the reading's value). \<open>threatSummary\<close> and \<open>alertSummary\<close> are what the
  statements read off an alert (type, severity and place), and \<open>predictedSummary\<close> is
  what an alert built from a prediction must show, read off the prediction. The
  three readings are samples for the worked inputs.
\<close>

definition addTideOffset :: "real \<Rightarrow> SensorData \<Rightarrow> SensorData" where
  "addTideOffset c s = (if sd_type s = tide_gauge then s\<lparr>sd_value := sd_value s + c\<rparr> else s)"

definition predictionCore :: "MLPrediction \<Rightarrow> string \<times> jsnum \<times> jsnum \<times> string" where
  "predictionCore p = (p_threatType p, p_probability p, p_confidence p, p_location p)"

definition qualityReading :: "string \<Rightarrow> real \<Rightarrow> SensorData" where
  "qualityReading place v =
     \<lparr>sd_id = [Str ''quality_'', Str place], sd_type = water_quality,
      sd_location = \<lparr>lat = 0, lng = 0, name = place\<rparr>, sd_value = v,
      sd_unit = ''ppm'', sd_timestamp = 0, sd_status = st_normal\<rparr>"

definition threatSummary :: "ThreatAlert \<Rightarrow> string \<times> severity \<times> location" where
  "threatSummary a = (ta_type a, ta_severity a, ta_location a)"

definition predictedSummary :: "MLPrediction \<Rightarrow> string \<times> severity \<times> string" where
  "predictedSummary p =
     (replaceSpaces (toLowerCase (p_threatType p)),
      (if js_gt (p_probability p) 0.9 then critical
       else if js_gt (p_probability p) 0.8 then high else medium),
      p_location p)"

definition alertSummary :: "ThreatAlert \<Rightarrow> string \<times> severity \<times> string" where
  "alertSummary a = (ta_type a, ta_severity a, name (ta_location a))"

definition weatherReading :: "string \<Rightarrow> real \<Rightarrow> SensorData" where
  "weatherReading place v =
     \<lparr>sd_id = [Str ''weather_'', Str place], sd_type = weather_station,
      sd_location = \<lparr>lat = 0, lng = 0, name = place\<rparr>, sd_value = v,
      sd_unit = ''km/h'', sd_timestamp = 0, sd_status = st_normal\<rparr>"

definition tideReading :: "string \<Rightarrow> real \<Rightarrow> SensorData" where
  "tideReading place v =
     \<lparr>sd_id = [Str ''tide_'', Str place], sd_type = tide_gauge,
      sd_location = \<lparr>lat = 0, lng = 0, name = place\<rparr>, sd_value = v,
      sd_unit = ''meters'', sd_timestamp = 0, sd_status = st_normal\<rparr>"

section \<open>Theorems\<close>

subsection \<open>The severity filter\<close>

lemma subseq_filter_self: "subseq (filter P xs) xs"
  by (induction xs) auto

text \<open>
  C10. In the alert-management view's severity filter, for every alert list and every
  filter value: when the filter is 'all' the filtered list is the input list unchanged;
  otherwise the filtered list contains exactly the alerts whose severity equals the
  filter value, in their original order.
\<close>

theorem filteredAlerts_spec:
  "filteredAlerts ''all'' alerts = alerts
   \<and> (filterSeverity \<noteq> ''all'' \<longrightarrow>
        filteredAlerts filterSeverity alerts
          = filter (\<lambda>a. severity_str (ta_severity a) = filterSeverity) alerts
        \<and> set (filteredAlerts filterSeverity alerts)
          = {a \<in> set alerts. severity_str (ta_severity a) = filterSeverity}
        \<and> subseq (filteredAlerts filterSeverity alerts) alerts)"
  by (simp add: filteredAlerts_def subseq_filter_self)

theorem filteredAlerts_spec_witness:
  "''medium'' \<noteq> ''all''
   \<and> filteredAlerts ''all'' (generateMockAlerts int) = generateMockAlerts int
   \<and> filteredAlerts ''medium'' (generateMockAlerts int) = [generateMockAlerts int ! 1]
   \<and> filteredAlerts ''low'' (generateMockAlerts int) = []"
  using filteredAlerts_spec [of "generateMockAlerts int" "''medium''"]
    filteredAlerts_spec [of "generateMockAlerts int" "''low''"]
  by (simp add: generateMockAlerts_def)

subsection \<open>Authentication\<close>

lemma find_key_Some_iff:
  "distinct (map f xs) \<Longrightarrow> (find (\<lambda>x. f x = k) xs = Some u) \<longleftrightarrow> (u \<in> set xs \<and> f u = k)"
  by (induction xs) (auto simp: image_iff)

lemma distinct_mockUsers: "distinct (map u_email mockUsers)"
  by (simp add: mockUsers_def)

text \<open>
  C6. For every password, authenticateUser with the email rajesh@emergency.gov.in
  returns the fixed NDMA emergency-manager record and with unknown@x.com returns
  none; in general the result is the roster entry whose email equals the given email,
  or none when there is no such entry, and it does not depend on the password.
\<close>

theorem authenticateUser_roster:
  "authenticateUser ''rajesh@emergency.gov.in'' password
     = Some \<lparr>u_id = ''user_001'', u_name = ''Dr. Rajesh Kumar'',
             u_email = ''rajesh@emergency.gov.in'', u_role = emergency_manager,
             u_organization = ''National Disaster Management Authority'',
             u_permissions = [''view_all'', ''create_alerts'', ''manage_users'']\<rparr>
   \<and> authenticateUser ''unknown@x.com'' password = None
   \<and> authenticateUser email password = authenticateUser email password'
   \<and> (authenticateUser email password = Some u
        \<longleftrightarrow> u \<in> set mockUsers \<and> u_email u = email)
   \<and> (authenticateUser email password = None
        \<longleftrightarrow> (\<forall>u \<in> set mockUsers. u_email u \<noteq> email))"
proof (intro conjI)
  show "authenticateUser ''rajesh@emergency.gov.in'' password
     = Some \<lparr>u_id = ''user_001'', u_name = ''Dr. Rajesh Kumar'',
             u_email = ''rajesh@emergency.gov.in'', u_role = emergency_manager,
             u_organization = ''National Disaster Management Authority'',
             u_permissions = [''view_all'', ''create_alerts'', ''manage_users'']\<rparr>"
    by (simp add: authenticateUser_def mockUsers_def)
  show "authenticateUser ''unknown@x.com'' password = None"
    by (simp add: authenticateUser_def mockUsers_def)
  show "authenticateUser email password = authenticateUser email password'"
    by (simp add: authenticateUser_def)
  show "authenticateUser email password = Some u
        \<longleftrightarrow> u \<in> set mockUsers \<and> u_email u = email"
    unfolding authenticateUser_def by (rule find_key_Some_iff [OF distinct_mockUsers])
  show "authenticateUser email password = None
        \<longleftrightarrow> (\<forall>u \<in> set mockUsers. u_email u \<noteq> email)"
    unfolding authenticateUser_def by (auto simp: find_None_iff)
qed

theorem authenticateUser_roster_witness:
  "mockUsers ! 1 \<in> set mockUsers
   \<and> u_email (mockUsers ! 1) = ''priya@coastal.ngo''
   \<and> authenticateUser ''priya@coastal.ngo'' ''secret'' = Some (mockUsers ! 1)
   \<and> authenticateUser ''priya@coastal.ngo'' [] = Some (mockUsers ! 1)
   \<and> ''nobody@nowhere'' \<notin> set (map u_email mockUsers)
   \<and> authenticateUser ''nobody@nowhere'' ''secret'' = None"
proof -
  have a: "mockUsers ! 1 \<in> set mockUsers"
    and b: "u_email (mockUsers ! 1) = ''priya@coastal.ngo''"
    and c: "\<forall>u \<in> set mockUsers. u_email u \<noteq> ''nobody@nowhere''"
    by (simp_all add: mockUsers_def)
  note p = authenticateUser_roster
             [of "''secret''" "''priya@coastal.ngo''" "[]" "mockUsers ! 1"]
  note n = authenticateUser_roster
             [of "''secret''" "''nobody@nowhere''" "[]" "mockUsers ! 1"]
  from p a b have p1: "authenticateUser ''priya@coastal.ngo'' ''secret'' = Some (mockUsers ! 1)"
    by blast
  from p p1 have p2: "authenticateUser ''priya@coastal.ngo'' [] = Some (mockUsers ! 1)"
    by metis
  from n c have n1: "authenticateUser ''nobody@nowhere'' ''secret'' = None"
    by blast
  have d: "''nobody@nowhere'' \<notin> set (map u_email mockUsers)"
    by (simp add: mockUsers_def)
  from a b d p1 p2 n1 show ?thesis by blast
qed

subsection \<open>Threshold threat detection\<close>

lemma detectThreats_step_summary:
  "map threatSummary (snd (detectThreats_step clock d st))
     = map threatSummary (snd st)
       @ (if sd_type d = tide_gauge \<and> sd_value d > 2.5
          then [(''storm_surge'', if sd_value d > 3 then critical else high, sd_location d)]
          else [])
       @ (if sd_type d = weather_station \<and> sd_value d > 60
          then [(''cyclone'', if sd_value d > 80 then critical else high, sd_location d)]
          else [])"
  by (simp add: detectThreats_step_def Let_def threatSummary_def
        stormSurgeThreat_def cycloneThreat_def)

lemma detectThreats_loop_summary:
  "map threatSummary (snd (detectThreats_loop clock ds st))
     = map threatSummary (snd st)
       @ concat (map (\<lambda>d.
          (if sd_type d = tide_gauge \<and> sd_value d > 2.5
           then [(''storm_surge'', if sd_value d > 3 then critical else high, sd_location d)]
           else [])
        @ (if sd_type d = weather_station \<and> sd_value d > 60
           then [(''cyclone'', if sd_value d > 80 then critical else high, sd_location d)]
           else [])) ds)"
proof (induction ds arbitrary: st)
  case Nil
  show ?case by simp
next
  case (Cons d ds)
  show ?case
    by (simp only: detectThreats_loop.simps Cons.IH detectThreats_step_summary
          list.map concat.simps append_assoc)
qed

lemma concat_map_filter_single:
  "concat (map (\<lambda>d. if P d then [f d] else []) ds) = map f (filter P ds)"
  by (induction ds) auto

lemma detectThreats_summary:
  "map (\<lambda>a. (ta_type a, ta_severity a, ta_location a)) (detectThreats clock sensorData)
     = map (\<lambda>d. if sd_type d = tide_gauge
                 then (''storm_surge'', if sd_value d > 3 then critical else high, sd_location d)
                 else (''cyclone'', if sd_value d > 80 then critical else high, sd_location d))
         (filter (\<lambda>d. sd_type d = tide_gauge \<and> sd_value d > 2.5
                      \<or> sd_type d = weather_station \<and> sd_value d > 60) sensorData)"
proof -
  have "map threatSummary (detectThreats clock sensorData)
     = concat (map (\<lambda>d.
          if sd_type d = tide_gauge \<and> sd_value d > 2.5 \<or> sd_type d = weather_station \<and> sd_value d > 60
          then [if sd_type d = tide_gauge
                 then (''storm_surge'', if sd_value d > 3 then critical else high, sd_location d)
                 else (''cyclone'', if sd_value d > 80 then critical else high, sd_location d)]
          else []) sensorData)"
    unfolding detectThreats_def detectThreats_loop_summary
    by (auto intro!: arg_cong [where f = concat])
  then show ?thesis
    by (simp add: concat_map_filter_single threatSummary_def [abs_def])
qed

lemma filter_type_summary:
  "map (\<lambda>a. (ta_severity a, ta_location a)) (filter (\<lambda>a. ta_type a = s) res)
     = map snd (filter (\<lambda>x. fst x = s) (map (\<lambda>a. (ta_type a, ta_severity a, ta_location a)) res))"
  by (induction res) auto

text \<open>
  C7. For every list of sensor readings, detectThreats emits one storm_surge alert per
  tide_gauge reading whose value is strictly greater than 2.5 (severity critical when
  the value is strictly greater than 3, otherwise high), one cyclone alert per
  weather_station reading whose value is strictly greater than 60 (severity critical
  when the value is strictly greater than 80, otherwise high), and no other alerts; the
  alerts come in the order of the readings that cause them.
\<close>

theorem detectThreats_alerts:
  "map (\<lambda>a. (ta_severity a, ta_location a))
       (filter (\<lambda>a. ta_type a = ''storm_surge'') (detectThreats clock sensorData))
     = map (\<lambda>d. (if sd_value d > 3 then critical else high, sd_location d))
         (filter (\<lambda>d. sd_type d = tide_gauge \<and> sd_value d > 2.5) sensorData)
   \<and> map (\<lambda>a. (ta_severity a, ta_location a))
       (filter (\<lambda>a. ta_type a = ''cyclone'') (detectThreats clock sensorData))
     = map (\<lambda>d. (if sd_value d > 80 then critical else high, sd_location d))
         (filter (\<lambda>d. sd_type d = weather_station \<and> sd_value d > 60) sensorData)
   \<and> filter (\<lambda>a. ta_type a \<noteq> ''storm_surge'' \<and> ta_type a \<noteq> ''cyclone'')
        (detectThreats clock sensorData) = []
   \<and> map (\<lambda>a. (ta_type a, ta_severity a, ta_location a)) (detectThreats clock sensorData)
     = map (\<lambda>d. if sd_type d = tide_gauge
                 then (''storm_surge'', if sd_value d > 3 then critical else high, sd_location d)
                 else (''cyclone'', if sd_value d > 80 then critical else high, sd_location d))
         (filter (\<lambda>d. sd_type d = tide_gauge \<and> sd_value d > 2.5
                      \<or> sd_type d = weather_station \<and> sd_value d > 60) sensorData)"
proof (intro conjI)
  let ?res = "detectThreats clock sensorData"
  note S = detectThreats_summary [of clock sensorData]
  show "map (\<lambda>a. (ta_severity a, ta_location a)) (filter (\<lambda>a. ta_type a = ''storm_surge'') ?res)
     = map (\<lambda>d. (if sd_value d > 3 then critical else high, sd_location d))
         (filter (\<lambda>d. sd_type d = tide_gauge \<and> sd_value d > 2.5) sensorData)"
    unfolding filter_type_summary S
    by (induction sensorData) auto
  show "map (\<lambda>a. (ta_severity a, ta_location a)) (filter (\<lambda>a. ta_type a = ''cyclone'') ?res)
     = map (\<lambda>d. (if sd_value d > 80 then critical else high, sd_location d))
         (filter (\<lambda>d. sd_type d = weather_station \<and> sd_value d > 60) sensorData)"
    unfolding filter_type_summary S
    by (induction sensorData) auto
  have "filter (\<lambda>x. fst x \<noteq> ''storm_surge'' \<and> fst x \<noteq> ''cyclone'')
          (map (\<lambda>a. (ta_type a, ta_severity a, ta_location a)) ?res) = []"
    unfolding S by (induction sensorData) auto
  then show "filter (\<lambda>a. ta_type a \<noteq> ''storm_surge'' \<and> ta_type a \<noteq> ''cyclone'') ?res = []"
    by (simp add: filter_map comp_def)
  show "map (\<lambda>a. (ta_type a, ta_severity a, ta_location a)) ?res
     = map (\<lambda>d. if sd_type d = tide_gauge
                 then (''storm_surge'', if sd_value d > 3 then critical else high, sd_location d)
                 else (''cyclone'', if sd_value d > 80 then critical else high, sd_location d))
         (filter (\<lambda>d. sd_type d = tide_gauge \<and> sd_value d > 2.5
                      \<or> sd_type d = weather_station \<and> sd_value d > 60) sensorData)"
    by (rule S)
qed

subsection \<open>Historical data\<close>






subsection \<open>Anomaly detection on one location group\<close>

lemma foldl_max_Max: "foldl max (x::real) xs = Max (set (x # xs))"
proof -
  have h: "(\<lambda>a b. max b a) = (max :: real \<Rightarrow> real \<Rightarrow> real)"
    by (intro ext) (simp add: max.commute)
  show ?thesis
    by (simp only: Max.set_eq_fold foldl_conv_fold h)
qed

lemma foldl_min_Min: "foldl min (x::real) xs = Min (set (x # xs))"
proof -
  have h: "(\<lambda>a b. min b a) = (min :: real \<Rightarrow> real \<Rightarrow> real)"
    by (intro ext) (simp add: min.commute)
  show ?thesis
    by (simp only: Min.set_eq_fold foldl_conv_fold h)
qed

lemma Math_max_Max: "xs \<noteq> [] \<Longrightarrow> Math_max xs = Finite (Max (set xs))"
proof (cases xs)
  case (Cons a list)
  then show ?thesis by (simp only: Math_max.simps foldl_max_Max)
qed simp

lemma Math_min_Min: "xs \<noteq> [] \<Longrightarrow> Math_min xs = Finite (Min (set xs))"
proof (cases xs)
  case (Cons a list)
  then show ?thesis by (simp only: Math_min.simps foldl_min_Min)
qed simp

lemma filter_concat_map_Nil:
  "(\<And>x. filter P (f x) = []) \<Longrightarrow> filter P (concat (map f xs)) = []"
  by (induction xs) auto

lemma tideAnomalies_types:
  assumes "t \<noteq> ''Storm Surge Risk''" "t \<noteq> ''Unusual Low Tide''"
  shows "filter (\<lambda>p. p_threatType p = t) (tideAnomalies location tideData) = []"
proof (cases "length tideData > 0")
  case True
  show ?thesis
    unfolding tideAnomalies_def if_P [OF True]
    by (rule filter_concat_map_Nil) (use assms in \<open>simp add: Let_def\<close>)
next
  case False
  then show ?thesis by (simp add: tideAnomalies_def)
qed

lemma windAnomalies_eq:
  "windAnomalies location windData =
     (if windData \<noteq> [] \<and> Max (set (map sd_value windData)) > 60
      then [\<lparr>p_threatType = ''Cyclonic Activity'',
             p_probability = Finite (min ((Max (set (map sd_value windData)) - 60) / 40) 0.95),
             p_confidence = Finite (min ((Max (set (map sd_value windData)) - 50) / 50) 0.9),
             p_location = location,
             p_features = [[Str ''Wind speed: '', Num (Max (set (map sd_value windData))),
                            Str '' km/h''],
                           [Str ''Sustained high winds detected'']]\<rparr>]
      else [])"
proof (cases "windData = []")
  case True
  then show ?thesis by (simp add: windAnomalies_def)
next
  case False
  then have "Math_max (map sd_value windData) = Finite (Max (set (map sd_value windData)))"
    by (intro Math_max_Max) simp
  with False show ?thesis
    by (simp add: windAnomalies_def)
qed

lemma qualityAnomalies_eq:
  "qualityAnomalies location qualityData =
     (if qualityData \<noteq> [] \<and> Min (set (map sd_value qualityData)) < 40
      then [\<lparr>p_threatType = ''Water Pollution'',
             p_probability = Finite (min ((40 - Min (set (map sd_value qualityData))) / 40) 0.95),
             p_confidence = Finite (min ((50 - Min (set (map sd_value qualityData))) / 50) 0.85),
             p_location = location,
             p_features = [[Str ''Water quality: '', Num (Min (set (map sd_value qualityData))),
                            Str '' ppm''],
                           [Str ''Below safety threshold'']]\<rparr>]
      else [])"
proof (cases "qualityData = []")
  case True
  then show ?thesis by (simp add: qualityAnomalies_def)
next
  case False
  then have "Math_min (map sd_value qualityData) = Finite (Min (set (map sd_value qualityData)))"
    by (intro Math_min_Min) simp
  with False show ?thesis
    by (simp add: qualityAnomalies_def)
qed

text \<open>
  C3. For every location group, a 'Cyclonic Activity' prediction is emitted if and only
  if the group has weather_station readings and the maximum of their values is strictly
  greater than 60 (so a maximum of exactly 60 emits none); the prediction has
  probability min((max - 60) / 40, 0.95) and confidence min((max - 50) / 50, 0.9).
\<close>

theorem cyclonic_activity_threshold:
  "filter (\<lambda>p. p_threatType p = ''Cyclonic Activity'') (locationAnomalies location sensors)
     = (let winds = map sd_value (filter (\<lambda>s. sd_type s = weather_station) sensors)
        in if winds \<noteq> [] \<and> Max (set winds) > 60
           then [\<lparr>p_threatType = ''Cyclonic Activity'',
                  p_probability = Finite (min ((Max (set winds) - 60) / 40) 0.95),
                  p_confidence = Finite (min ((Max (set winds) - 50) / 50) 0.9),
                  p_location = location,
                  p_features = [[Str ''Wind speed: '', Num (Max (set winds)), Str '' km/h''],
                                [Str ''Sustained high winds detected'']]\<rparr>]
           else [])"
proof -
  have t: "filter (\<lambda>p. p_threatType p = ''Cyclonic Activity'') (tideAnomalies location td) = []"
    for td by (rule tideAnomalies_types) simp_all
  have q: "filter (\<lambda>p. p_threatType p = ''Cyclonic Activity'') (qualityAnomalies location qd) = []"
    for qd by (simp add: qualityAnomalies_eq)
  show ?thesis
    unfolding locationAnomalies_def Let_def filter_append t q
    by (simp add: windAnomalies_eq)
qed

lemma foldl_add_sum_list:
  "foldl (\<lambda>sum s. sum + f s) a xs = a + sum_list (map f xs)" for a :: real
  by (induction xs arbitrary: a) simp_all

lemma reduce_sum_sum_list: "reduce_sum f xs = sum_list (map f xs)"
  by (simp add: reduce_sum_def foldl_add_sum_list)

subsection \<open>Binary64 rounding\<close>

lemma pow2_powr: "pow2 e = 2 powr (of_int e)"
  by (simp add: pow2_def powr_int)

lemma pow2_pos: "0 < pow2 e"
  by (simp add: pow2_powr)

lemma pow2_mono: "a \<le> b \<Longrightarrow> pow2 a \<le> pow2 b"
  by (simp add: pow2_powr)

lemma pow2_add: "pow2 (a + b) = pow2 a * pow2 b"
  by (simp add: pow2_powr powr_add)

lemma binade_eqI:
  assumes "pow2 e \<le> \<bar>x\<bar>" "\<bar>x\<bar> < pow2 (e + 1)" "- 1022 \<le> e"
  shows "binade x = e"
proof -
  have x: "0 < \<bar>x\<bar>" using assms(1) pow2_pos [of e] by linarith
  have "of_int e \<le> log 2 \<bar>x\<bar>"
    using assms(1) x by (simp add: le_log_iff pow2_powr)
  moreover have "log 2 \<bar>x\<bar> < of_int e + 1"
    using assms(2) x by (simp add: log_less_iff pow2_powr)
  ultimately have "\<lfloor>log 2 \<bar>x\<bar>\<rfloor> = e" by linarith
  with assms(3) show ?thesis by (simp add: binade_def)
qed

lemma rne_nearest:
  assumes "\<bar>y - of_int m\<bar> < 1 / 2"
  shows "rne y = m"
proof -
  from assms have a: "of_int m - 1 / 2 < y" and b: "y < of_int m + 1 / 2" by linarith+
  show ?thesis
  proof (cases "of_int m \<le> y")
    case True
    with b have "\<lfloor>y\<rfloor> = m" by linarith
    with b show ?thesis by (simp add: rne_def Let_def)
  next
    case False
    with a have f: "\<lfloor>y\<rfloor> = m - 1" by linarith
    from a have "1 / 2 < y - of_int (m - 1)" by simp
    with f show ?thesis by (simp add: rne_def Let_def)
  qed
qed

lemma rne_tie_up:
  assumes "y = of_int m - 1 / 2" "even m"
  shows "rne y = m"
proof -
  from assms(1) have f: "\<lfloor>y\<rfloor> = m - 1" by linarith
  from assms(1) have d: "y - of_int (m - 1) = 1 / 2" by simp
  from assms(2) have "odd (m - 1)" by simp
  with f d show ?thesis by (simp add: rne_def Let_def)
qed

lemma rne_tie_down:
  assumes "y = of_int m + 1 / 2" "even m"
  shows "rne y = m"
proof -
  from assms(1) have f: "\<lfloor>y\<rfloor> = m" by linarith
  from assms(1) have d: "y - of_int m = 1 / 2" by simp
  with f assms(2) show ?thesis by (simp add: rne_def Let_def)
qed

lemma round64_rne:
  assumes b1: "pow2 e \<le> \<bar>x\<bar>" and b2: "\<bar>x\<bar> < pow2 (e + 1)"
    and e1: "- 1022 \<le> e" and e2: "e \<le> 1022"
    and m: "rne (x / pow2 (e - 52)) = m" and d: "\<bar>x / pow2 (e - 52) - of_int m\<bar> \<le> 1 / 2"
  shows "round64 x = Finite (of_int m * pow2 (e - 52))"
proof -
  let ?q = "pow2 (e - 52)"
  have q: "0 < ?q" by (rule pow2_pos)
  have x0: "x \<noteq> 0" using b1 pow2_pos [of e] by auto
  have be: "binade x = e" using b1 b2 e1 by (rule binade_eqI)
  have "53 + (e - 52) = e + 1" by simp
  then have p53: "pow2 (e + 1) = pow2 53 * ?q"
    using pow2_add [of 53 "e - 52"] by (simp only:)
  with b2 have "\<bar>x\<bar> < pow2 53 * ?q" by simp
  then have "\<bar>x\<bar> / ?q < pow2 53" using q by (simp add: pos_divide_less_eq)
  then have xq: "\<bar>x / ?q\<bar> < pow2 53" using q by simp
  have "\<bar>of_int m :: real\<bar> \<le> \<bar>x / ?q\<bar> + 1 / 2" using d by linarith
  with xq have "\<bar>of_int m :: real\<bar> < pow2 53 + 1 / 2" by linarith
  then have "\<bar>of_int m :: real\<bar> < 9007199254740992 + 1 / 2" by (simp add: pow2_def)
  then have "\<bar>m\<bar> \<le> 9007199254740992" by linarith
  then have mm: "\<bar>of_int m :: real\<bar> \<le> pow2 53" by (simp add: pow2_def)
  have "\<bar>of_int m * ?q\<bar> = \<bar>of_int m :: real\<bar> * ?q" using q by (simp add: abs_mult)
  also have "\<dots> \<le> pow2 53 * ?q" using mm q by (simp add: mult_right_mono)
  also have "\<dots> = pow2 (e + 1)" using p53 by simp
  also have "\<dots> \<le> pow2 1023" using e2 by (intro pow2_mono) simp
  also have "\<dots> < pow2 1024" by (simp add: pow2_powr)
  finally have "\<not> pow2 1024 \<le> \<bar>of_int m * ?q\<bar>" by simp
  then show ?thesis
    using x0 by (simp add: round64_def be m Let_def)
qed

lemma round64_nearest:
  assumes "pow2 e \<le> \<bar>x\<bar>" "\<bar>x\<bar> < pow2 (e + 1)" "- 1022 \<le> e" "e \<le> 1022"
    and r: "r = of_int m * pow2 (e - 52)" and d: "\<bar>x - r\<bar> < pow2 (e - 52) / 2"
  shows "round64 x = Finite r"
proof -
  let ?q = "pow2 (e - 52)"
  have q: "0 < ?q" by (rule pow2_pos)
  have "x / ?q - of_int m = (x - r) / ?q" using q by (simp add: r field_simps)
  then have "\<bar>x / ?q - of_int m\<bar> = \<bar>x - r\<bar> / ?q" using q by simp
  also have "\<dots> < 1 / 2" using d q by (simp add: pos_divide_less_eq)
  finally have n: "\<bar>x / ?q - of_int m\<bar> < 1 / 2" .
  then have "rne (x / ?q) = m" by (rule rne_nearest)
  with assms(1-4) have "round64 x = Finite (of_int m * ?q)"
    using n by (intro round64_rne) simp_all
  then show ?thesis by (simp add: r)
qed


lemma round64_tie:
  assumes "pow2 e \<le> \<bar>x\<bar>" "\<bar>x\<bar> < pow2 (e + 1)" "- 1022 \<le> e" "e \<le> 1022"
    and r: "r = of_int m * pow2 (e - 52)" and d: "\<bar>x - r\<bar> = pow2 (e - 52) / 2"
    and ev: "even m"
  shows "round64 x = Finite r"
proof -
  let ?q = "pow2 (e - 52)"
  have q: "0 < ?q" by (rule pow2_pos)
  have "x / ?q - of_int m = (x - r) / ?q" using q by (simp add: r field_simps)
  then have "\<bar>x / ?q - of_int m\<bar> = \<bar>x - r\<bar> / ?q" using q by simp
  also have "\<dots> = 1 / 2" using d q by simp
  finally have n: "\<bar>x / ?q - of_int m\<bar> = 1 / 2" .
  then consider "x / ?q = of_int m - 1 / 2" | "x / ?q = of_int m + 1 / 2" by linarith
  then have "rne (x / ?q) = m"
  proof cases
    case 1
    then show ?thesis using ev by (rule rne_tie_up)
  next
    case 2
    then show ?thesis using ev by (rule rne_tie_down)
  qed
  with assms(1-4) have "round64 x = Finite (of_int m * ?q)"
    using n by (intro round64_rne) simp_all
  then show ?thesis by (simp add: r)
qed

lemma round64_sqrt_nearest:
  assumes e: "- 1022 \<le> e" "e \<le> 1022"
    and r: "r = of_int m * pow2 (e - 52)"
    and lo: "pow2 e \<le> r - pow2 (e - 52) / 2" and hi: "r + pow2 (e - 52) / 2 \<le> pow2 (e + 1)"
    and v1: "(r - pow2 (e - 52) / 2) * (r - pow2 (e - 52) / 2) < v"
    and v2: "v < (r + pow2 (e - 52) / 2) * (r + pow2 (e - 52) / 2)"
  shows "round64 (sqrt v) = Finite r"
proof -
  let ?h = "pow2 (e - 52) / 2"
  have h: "0 < ?h" using pow2_pos [of "e - 52"] by simp
  have l0: "0 < r - ?h" using lo pow2_pos [of e] by linarith
  have u0: "0 < r + ?h" using l0 h by linarith
  have "(r - ?h)\<^sup>2 < v" using v1 by (simp add: power2_eq_square)
  then have a: "r - ?h < sqrt v" by (rule real_less_rsqrt)
  have "v < (r + ?h)\<^sup>2" using v2 by (simp add: power2_eq_square)
  then have b: "sqrt v < r + ?h" using u0 by (intro real_less_lsqrt) simp_all
  have s0: "0 < sqrt v" using a l0 by linarith
  have 1: "pow2 e \<le> \<bar>sqrt v\<bar>" using a lo s0 by linarith
  have 2: "\<bar>sqrt v\<bar> < pow2 (e + 1)" using b hi s0 by linarith
  have 3: "\<bar>sqrt v - r\<bar> < ?h" using a b by linarith
  from 1 2 e r 3 show ?thesis by (rule round64_nearest)
qed

lemma round64_of_int:
  assumes "\<bar>n\<bar> < 9007199254740992"
  shows "round64 (of_int n) = Finite (of_int n)"
proof (cases "n = 0")
  case True
  then show ?thesis by (simp add: round64_def)
next
  case False
  define x :: real where "x = of_int n"
  define e where "e = \<lfloor>log 2 \<bar>x\<bar>\<rfloor>"
  have x1: "1 \<le> \<bar>x\<bar>" using False unfolding x_def by (simp flip: of_int_abs)
  then have x0: "0 < \<bar>x\<bar>" by linarith
  have "0 \<le> log 2 \<bar>x\<bar>" using x1 by simp
  then have e0: "0 \<le> e" unfolding e_def by simp
  have "of_int e \<le> log 2 \<bar>x\<bar>" unfolding e_def by simp
  then have b1: "pow2 e \<le> \<bar>x\<bar>" using x0 by (simp add: le_log_iff pow2_powr)
  have "log 2 \<bar>x\<bar> < of_int e + 1" unfolding e_def by linarith
  then have b2: "\<bar>x\<bar> < pow2 (e + 1)" using x0 by (simp add: log_less_iff pow2_powr)
  have "\<bar>x\<bar> < 9007199254740992" using assms unfolding x_def by (simp flip: of_int_abs)
  then have "\<bar>x\<bar> < pow2 53" by (simp add: pow2_def)
  with b1 have lt: "pow2 e < pow2 53" by linarith
  have e53: "e < 53"
  proof (rule ccontr)
    assume "\<not> e < 53"
    then have "pow2 53 \<le> pow2 e" by (intro pow2_mono) simp
    with lt show False by linarith
  qed
  define k where "k = nat (52 - e)"
  have ke: "int k = 52 - e" using e53 by (simp add: k_def)
  have "pow2 (e - 52) * pow2 (52 - e) = pow2 0" using pow2_add [of "e - 52" "52 - e"] by simp
  moreover have "pow2 (52 - e) = 2 ^ k" using e53 by (simp add: pow2_def k_def)
  ultimately have qk: "pow2 (e - 52) * 2 ^ k = 1" by (simp add: pow2_def)
  have r: "x = of_int (n * 2 ^ k) * pow2 (e - 52)"
  proof -
    have "of_int (n * 2 ^ k) * pow2 (e - 52) = x * (pow2 (e - 52) * 2 ^ k)"
      by (simp add: x_def)
    then show ?thesis by (simp add: qk)
  qed
  have d: "\<bar>x - x\<bar> < pow2 (e - 52) / 2" using pow2_pos [of "e - 52"] by simp
  have "round64 x = Finite x"
    using b1 b2 _ _ r d by (rule round64_nearest) (use e0 e53 in simp_all)
  then show ?thesis by (simp add: x_def)
qed

lemma round64_numeral [simp]:
  "numeral k < (9007199254740992 :: int) \<Longrightarrow> round64 (numeral k) = Finite (numeral k)"
  using round64_of_int [of "numeral k"] by simp

lemma round64_one [simp]: "round64 1 = Finite 1"
  using round64_of_int [of 1] by simp

lemma round64_zero [simp]: "round64 0 = Finite 0"
  by (simp add: round64_def)

subsection \<open>The tide statistics under an offset\<close>

lemma foldl_js_add_map_cong:
  "(\<And>s. s \<in> set xs \<Longrightarrow> f' (g s) = f s) \<Longrightarrow>
   foldl (\<lambda>sum s. js_add sum (f' s)) acc (map g xs) = foldl (\<lambda>sum s. js_add sum (f s)) acc xs"
  by (induction xs arbitrary: acc) simp_all

lemma reduce_add_map_cong:
  "(\<And>s. s \<in> set xs \<Longrightarrow> f' (g s) = f s) \<Longrightarrow> reduce_add f' (map g xs) = reduce_add f xs"
  unfolding reduce_add_def by (rule foldl_js_add_map_cong)

lemma deviation_offset:
  assumes "avgTide_of td = Finite a" "avgTide_of td' = Finite (a + c)" "v' = v + c"
  shows "js_sub (Finite v') (avgTide_of td') = js_sub (Finite v) (avgTide_of td)"
proof -
  have "v + c + - (a + c) = v + - a" by simp
  then show ?thesis by (simp only: assms js_sub_def js_neg.simps js_add.simps)
qed

lemma tideStdDev_offset:
  assumes g: "\<And>s. s \<in> set td \<Longrightarrow> sd_value (g s) = sd_value s + c"
    and avg: "avgTide_of td = Finite a" "avgTide_of (map g td) = Finite (a + c)"
  shows "tideStdDev_of (map g td) = tideStdDev_of td"
proof -
  have "reduce_add (\<lambda>s. js_square (js_sub (Finite (sd_value s)) (avgTide_of (map g td))))
          (map g td)
        = reduce_add (\<lambda>s. js_square (js_sub (Finite (sd_value s)) (avgTide_of td))) td"
    by (rule reduce_add_map_cong) (simp only: deviation_offset [OF avg g])
  then show ?thesis by (simp only: tideStdDev_of_def length_map)
qed

lemma zScore_offset:
  assumes g: "\<And>s. s \<in> set td \<Longrightarrow> sd_value (g s) = sd_value s + c"
    and avg: "avgTide_of td = Finite a" "avgTide_of (map g td) = Finite (a + c)"
    and s: "s \<in> set td"
  shows "zScore_of (map g td) (g s) = zScore_of td s"
  by (simp only: zScore_of_def tideStdDev_offset [OF g avg] deviation_offset [OF avg g [OF s]])

lemma tideAnomalies_offset:
  assumes g: "\<And>s. s \<in> set td \<Longrightarrow> sd_value (g s) = sd_value s + c"
    and avg: "avgTide_of td = Finite a" "avgTide_of (map g td) = Finite (a + c)"
  shows "map predictionCore (tideAnomalies location (map g td))
           = map predictionCore (tideAnomalies location td)"
proof (cases "td = []")
  case True
  then show ?thesis by (simp add: tideAnomalies_def)
next
  case False
  have cm: "map predictionCore (concat (map F (map g td))) = map predictionCore (concat (map G td))"
    if "\<And>s. s \<in> set td \<Longrightarrow> map predictionCore (F (g s)) = map predictionCore (G s)"
    for F G :: "SensorData \<Rightarrow> MLPrediction list"
    using that by (induction td) simp_all
  from False have p1: "length td > 0" and p2: "length (map g td) > 0"
    by simp_all
  show ?thesis
    unfolding tideAnomalies_def if_P [OF p1] if_P [OF p2]
    by (rule cm)
       (simp add: Let_def zScore_offset [OF g avg] avg g predictionCore_def)
qed

lemma filter_tide_addTideOffset:
  "filter (\<lambda>s. sd_type s = tide_gauge) (map (addTideOffset c) xs)
     = map (addTideOffset c) (filter (\<lambda>s. sd_type s = tide_gauge) xs)"
  by (induction xs) (simp_all add: addTideOffset_def)

lemma filter_other_addTideOffset:
  "t \<noteq> tide_gauge \<Longrightarrow>
   filter (\<lambda>s. sd_type s = t) (map (addTideOffset c) xs) = filter (\<lambda>s. sd_type s = t) xs"
  by (induction xs) (simp_all add: addTideOffset_def)

lemma addTideOffset_value:
  "s \<in> set (filter (\<lambda>s. sd_type s = tide_gauge) xs) \<Longrightarrow>
   sd_value (addTideOffset c s) = sd_value s + c"
  by (simp add: addTideOffset_def)

text \<open>
  C1 (amended). For every location group and every constant c such that the mean the
  program computes for the tide readings with c added is exactly the mean it computes
  for the tide readings plus c: adding c to the value of every tide_gauge reading of the
  group (each new value being exactly the old one plus c) leaves each tide reading's
  z-score (the absolute value of (value minus group mean) divided by the group's
  standard deviation) unchanged, and with it the predictions of the group in their
  threat type, probability, confidence and location.
\<close>

theorem tide_zscore_offset_exact_mean:
  assumes "avgTide_of (filter (\<lambda>s. sd_type s = tide_gauge) sensors) = Finite a"
    and "avgTide_of (filter (\<lambda>s. sd_type s = tide_gauge) (map (addTideOffset c) sensors))
           = Finite (a + c)"
  shows "map (zScore_of (filter (\<lambda>s. sd_type s = tide_gauge) (map (addTideOffset c) sensors)))
           (filter (\<lambda>s. sd_type s = tide_gauge) (map (addTideOffset c) sensors))
         = map (zScore_of (filter (\<lambda>s. sd_type s = tide_gauge) sensors))
             (filter (\<lambda>s. sd_type s = tide_gauge) sensors)
       \<and> map predictionCore (locationAnomalies location (map (addTideOffset c) sensors))
         = map predictionCore (locationAnomalies location sensors)"
proof
  let ?td = "filter (\<lambda>s. sd_type s = tide_gauge) sensors"
  let ?g = "addTideOffset c"
  note g = addTideOffset_value [of _ sensors c]
  note avg = assms(1) assms(2) [unfolded filter_tide_addTideOffset]
  have z: "zScore_of (map ?g ?td) (?g s) = zScore_of ?td s" if "s \<in> set ?td" for s
    using g avg that by (rule zScore_offset)
  show "map (zScore_of (filter (\<lambda>s. sd_type s = tide_gauge) (map ?g sensors)))
          (filter (\<lambda>s. sd_type s = tide_gauge) (map ?g sensors))
        = map (zScore_of ?td) ?td"
    unfolding filter_tide_addTideOffset
    using z by (simp only: map_map comp_def map_eq_conv) blast
  have ta: "map predictionCore (tideAnomalies location (map ?g ?td))
              = map predictionCore (tideAnomalies location ?td)"
    using g avg by (rule tideAnomalies_offset)
  show "map predictionCore (locationAnomalies location (map ?g sensors))
        = map predictionCore (locationAnomalies location sensors)"
    unfolding locationAnomalies_def Let_def filter_tide_addTideOffset
    by (simp add: filter_other_addTideOffset ta)
qed

text \<open>
  Three tide groups evaluated step by step: the values 1, 1, 1, 1, 2, the same with 10
  added, and nine readings of 1 with one of 11 (mean 2, standard deviation 3).
\<close>

lemma plain_avg:
  "avgTide_of [tideReading ''A'' 1, tideReading ''A'' 1, tideReading ''A'' 1, tideReading ''A'' 1, tideReading ''A'' 2]
     = Finite (5404319552844595 / 4503599627370496)"
proof -
  have "avgTide_of [tideReading ''A'' 1, tideReading ''A'' 1, tideReading ''A'' 1, tideReading ''A'' 1, tideReading ''A'' 2]
          = round64 (6 / 5)"
    by (simp add: avgTide_of_def reduce_add_def tideReading_def)
  also have "\<dots> = Finite (5404319552844595 / 4503599627370496)"
    by (rule round64_nearest [where e = "0" and m = "5404319552844595"]) (simp_all add: pow2_def)
  finally show ?thesis .
qed

lemma plain_dev0:
  "js_sub (Finite 1) (Finite (5404319552844595 / 4503599627370496))
     = Finite (- 900719925474099 / 4503599627370496)"
  unfolding js_sub_def js_neg.simps js_add.simps
  by (rule round64_nearest [where e = "- 3" and m = "- 7205759403792792"]) (simp_all add: pow2_def)

lemma plain_sq0:
  "js_square (Finite (- 900719925474099 / 4503599627370496))
     = Finite (720575940379279 / 18014398509481984)"
  unfolding js_square.simps
  by (rule round64_nearest [where e = "- 5" and m = "5764607523034232"]) (simp_all add: pow2_def)

lemma plain_dev1:
  "js_sub (Finite 2) (Finite (5404319552844595 / 4503599627370496))
     = Finite (3602879701896397 / 4503599627370496)"
  unfolding js_sub_def js_neg.simps js_add.simps
  by (rule round64_nearest [where e = "- 1" and m = "7205759403792794"]) (simp_all add: pow2_def)

lemma plain_sq1:
  "js_square (Finite (3602879701896397 / 4503599627370496))
     = Finite (1441151880758559 / 2251799813685248)"
  unfolding js_square.simps
  by (rule round64_nearest [where e = "- 1" and m = "5764607523034236"]) (simp_all add: pow2_def)

lemma plain_acc0:
  "js_add (Finite 0) (Finite (720575940379279 / 18014398509481984))
     = Finite (720575940379279 / 18014398509481984)"
  unfolding js_add.simps
  by (rule round64_nearest [where e = "- 5" and m = "5764607523034232"]) (simp_all add: pow2_def)

lemma plain_acc1:
  "js_add (Finite (720575940379279 / 18014398509481984)) (Finite (720575940379279 / 18014398509481984))
     = Finite (720575940379279 / 9007199254740992)"
  unfolding js_add.simps
  by (rule round64_nearest [where e = "- 4" and m = "5764607523034232"]) (simp_all add: pow2_def)

lemma plain_acc2:
  "js_add (Finite (720575940379279 / 9007199254740992)) (Finite (720575940379279 / 18014398509481984))
     = Finite (2161727821137837 / 18014398509481984)"
  unfolding js_add.simps
  by (rule round64_nearest [where e = "- 4" and m = "8646911284551348"]) (simp_all add: pow2_def)

lemma plain_acc3:
  "js_add (Finite (2161727821137837 / 18014398509481984)) (Finite (720575940379279 / 18014398509481984))
     = Finite (720575940379279 / 4503599627370496)"
  unfolding js_add.simps
  by (rule round64_nearest [where e = "- 3" and m = "5764607523034232"]) (simp_all add: pow2_def)

lemma plain_acc4:
  "js_add (Finite (720575940379279 / 4503599627370496)) (Finite (1441151880758559 / 2251799813685248))
     = Finite (3602879701896397 / 4503599627370496)"
  unfolding js_add.simps
  by (rule round64_nearest [where e = "- 1" and m = "7205759403792794"]) (simp_all add: pow2_def)

lemma plain_var:
  "js_divide (Finite (3602879701896397 / 4503599627370496)) (Finite 5)
     = Finite (5764607523034235 / 36028797018963968)"
proof -
  have "round64 ((3602879701896397 / 4503599627370496) / 5) = Finite (5764607523034235 / 36028797018963968)"
    by (rule round64_nearest [where e = "- 3" and m = "5764607523034235"]) (simp_all add: pow2_def)
  then show ?thesis by simp
qed

lemma plain_sqrt:
  "js_sqrt (Finite (5764607523034235 / 36028797018963968))
     = Finite (3602879701896397 / 9007199254740992)"
proof -
  have "round64 (sqrt (5764607523034235 / 36028797018963968)) = Finite (3602879701896397 / 9007199254740992)"
    by (rule round64_sqrt_nearest [where e = "- 2" and m = "7205759403792794"]) (simp_all add: pow2_def)
  then show ?thesis by simp
qed

lemma plain_v0: "sd_value (tideReading ''A'' 1) = 1"
  by (simp add: tideReading_def)

lemma plain_v1: "sd_value (tideReading ''A'' 2) = 2"
  by (simp add: tideReading_def)

lemma plain_len: "real (length [tideReading ''A'' 1, tideReading ''A'' 1, tideReading ''A'' 1, tideReading ''A'' 1, tideReading ''A'' 2]) = 5"
  by simp

lemma plain_sd:
  "tideStdDev_of [tideReading ''A'' 1, tideReading ''A'' 1, tideReading ''A'' 1, tideReading ''A'' 1, tideReading ''A'' 2]
     = Finite (3602879701896397 / 9007199254740992)"
  by (simp only: tideStdDev_of_def reduce_add_def plain_avg plain_len foldl_Cons foldl_Nil
        plain_v0 plain_v1 plain_dev0 plain_sq0 plain_dev1 plain_sq1 plain_acc0 plain_acc1 plain_acc2 plain_acc3 plain_acc4 plain_var plain_sqrt)

lemma plain_zdiv0:
  "js_divide (Finite (- 900719925474099 / 4503599627370496)) (Finite (3602879701896397 / 9007199254740992))
     = Finite (- 4503599627370495 / 9007199254740992)"
proof -
  have "round64 ((- 900719925474099 / 4503599627370496) / (3602879701896397 / 9007199254740992)) = Finite (- 4503599627370495 / 9007199254740992)"
    by (rule round64_nearest [where e = "- 2" and m = "- 9007199254740990"]) (simp_all add: pow2_def)
  then show ?thesis by simp
qed

lemma plain_z0:
  "zScore_of [tideReading ''A'' 1, tideReading ''A'' 1, tideReading ''A'' 1, tideReading ''A'' 1, tideReading ''A'' 2] (tideReading ''A'' 1)
     = Finite (4503599627370495 / 9007199254740992)"
  by (simp only: zScore_of_def plain_avg plain_sd plain_v0 plain_dev0 plain_zdiv0 js_abs.simps) simp

lemma plain_zdiv1:
  "js_divide (Finite (3602879701896397 / 4503599627370496)) (Finite (3602879701896397 / 9007199254740992))
     = Finite (2)"
proof -
  have "round64 ((3602879701896397 / 4503599627370496) / (3602879701896397 / 9007199254740992)) = Finite (2)"
    by (rule round64_nearest [where e = "1" and m = "4503599627370496"]) (simp_all add: pow2_def)
  then show ?thesis by simp
qed

lemma plain_z1:
  "zScore_of [tideReading ''A'' 1, tideReading ''A'' 1, tideReading ''A'' 1, tideReading ''A'' 1, tideReading ''A'' 2] (tideReading ''A'' 2)
     = Finite (2)"
  by (simp only: zScore_of_def plain_avg plain_sd plain_v1 plain_dev1 plain_zdiv1 js_abs.simps) simp

lemma shifted_avg:
  "avgTide_of [tideReading ''A'' 11, tideReading ''A'' 11, tideReading ''A'' 11, tideReading ''A'' 11, tideReading ''A'' 12]
     = Finite (3152519739159347 / 281474976710656)"
proof -
  have "avgTide_of [tideReading ''A'' 11, tideReading ''A'' 11, tideReading ''A'' 11, tideReading ''A'' 11, tideReading ''A'' 12]
          = round64 (56 / 5)"
    by (simp add: avgTide_of_def reduce_add_def tideReading_def)
  also have "\<dots> = Finite (3152519739159347 / 281474976710656)"
    by (rule round64_nearest [where e = "3" and m = "6305039478318694"]) (simp_all add: pow2_def)
  finally show ?thesis .
qed

lemma shifted_dev0:
  "js_sub (Finite 11) (Finite (3152519739159347 / 281474976710656))
     = Finite (- 56294995342131 / 281474976710656)"
  unfolding js_sub_def js_neg.simps js_add.simps
  by (rule round64_nearest [where e = "- 3" and m = "- 7205759403792768"]) (simp_all add: pow2_def)

lemma shifted_sq0:
  "js_square (Finite (- 56294995342131 / 281474976710656))
     = Finite (2882303761517097 / 72057594037927936)"
  unfolding js_square.simps
  by (rule round64_nearest [where e = "- 5" and m = "5764607523034194"]) (simp_all add: pow2_def)

lemma shifted_dev1:
  "js_sub (Finite 12) (Finite (3152519739159347 / 281474976710656))
     = Finite (225179981368525 / 281474976710656)"
  unfolding js_sub_def js_neg.simps js_add.simps
  by (rule round64_nearest [where e = "- 1" and m = "7205759403792800"]) (simp_all add: pow2_def)

lemma shifted_sq1:
  "js_square (Finite (225179981368525 / 281474976710656))
     = Finite (5764607523034245 / 9007199254740992)"
  unfolding js_square.simps
  by (rule round64_nearest [where e = "- 1" and m = "5764607523034245"]) (simp_all add: pow2_def)

lemma shifted_acc0:
  "js_add (Finite 0) (Finite (2882303761517097 / 72057594037927936))
     = Finite (2882303761517097 / 72057594037927936)"
  unfolding js_add.simps
  by (rule round64_nearest [where e = "- 5" and m = "5764607523034194"]) (simp_all add: pow2_def)

lemma shifted_acc1:
  "js_add (Finite (2882303761517097 / 72057594037927936)) (Finite (2882303761517097 / 72057594037927936))
     = Finite (2882303761517097 / 36028797018963968)"
  unfolding js_add.simps
  by (rule round64_nearest [where e = "- 4" and m = "5764607523034194"]) (simp_all add: pow2_def)

lemma shifted_acc2:
  "js_add (Finite (2882303761517097 / 36028797018963968)) (Finite (2882303761517097 / 72057594037927936))
     = Finite (8646911284551291 / 72057594037927936)"
  unfolding js_add.simps
  by (rule round64_nearest [where e = "- 4" and m = "8646911284551291"]) (simp_all add: pow2_def)

lemma shifted_acc3:
  "js_add (Finite (8646911284551291 / 72057594037927936)) (Finite (2882303761517097 / 72057594037927936))
     = Finite (2882303761517097 / 18014398509481984)"
  unfolding js_add.simps
  by (rule round64_nearest [where e = "- 3" and m = "5764607523034194"]) (simp_all add: pow2_def)

lemma shifted_acc4:
  "js_add (Finite (2882303761517097 / 18014398509481984)) (Finite (5764607523034245 / 9007199254740992))
     = Finite (3602879701896397 / 4503599627370496)"
  unfolding js_add.simps
  by (rule round64_tie [where e = "- 1" and m = "7205759403792794"]) (simp_all add: pow2_def)

lemma shifted_var:
  "js_divide (Finite (3602879701896397 / 4503599627370496)) (Finite 5)
     = Finite (5764607523034235 / 36028797018963968)"
proof -
  have "round64 ((3602879701896397 / 4503599627370496) / 5) = Finite (5764607523034235 / 36028797018963968)"
    by (rule round64_nearest [where e = "- 3" and m = "5764607523034235"]) (simp_all add: pow2_def)
  then show ?thesis by simp
qed

lemma shifted_sqrt:
  "js_sqrt (Finite (5764607523034235 / 36028797018963968))
     = Finite (3602879701896397 / 9007199254740992)"
proof -
  have "round64 (sqrt (5764607523034235 / 36028797018963968)) = Finite (3602879701896397 / 9007199254740992)"
    by (rule round64_sqrt_nearest [where e = "- 2" and m = "7205759403792794"]) (simp_all add: pow2_def)
  then show ?thesis by simp
qed

lemma shifted_v0: "sd_value (tideReading ''A'' 11) = 11"
  by (simp add: tideReading_def)

lemma shifted_v1: "sd_value (tideReading ''A'' 12) = 12"
  by (simp add: tideReading_def)

lemma shifted_len: "real (length [tideReading ''A'' 11, tideReading ''A'' 11, tideReading ''A'' 11, tideReading ''A'' 11, tideReading ''A'' 12]) = 5"
  by simp

lemma shifted_sd:
  "tideStdDev_of [tideReading ''A'' 11, tideReading ''A'' 11, tideReading ''A'' 11, tideReading ''A'' 11, tideReading ''A'' 12]
     = Finite (3602879701896397 / 9007199254740992)"
  by (simp only: tideStdDev_of_def reduce_add_def shifted_avg shifted_len foldl_Cons foldl_Nil
        shifted_v0 shifted_v1 shifted_dev0 shifted_sq0 shifted_dev1 shifted_sq1 shifted_acc0 shifted_acc1 shifted_acc2 shifted_acc3 shifted_acc4 shifted_var shifted_sqrt)

lemma shifted_zdiv0:
  "js_divide (Finite (- 56294995342131 / 281474976710656)) (Finite (3602879701896397 / 9007199254740992))
     = Finite (- 281474976710655 / 562949953421312)"
proof -
  have "round64 ((- 56294995342131 / 281474976710656) / (3602879701896397 / 9007199254740992)) = Finite (- 281474976710655 / 562949953421312)"
    by (rule round64_nearest [where e = "- 2" and m = "- 9007199254740960"]) (simp_all add: pow2_def)
  then show ?thesis by simp
qed

lemma shifted_z0:
  "zScore_of [tideReading ''A'' 11, tideReading ''A'' 11, tideReading ''A'' 11, tideReading ''A'' 11, tideReading ''A'' 12] (tideReading ''A'' 11)
     = Finite (281474976710655 / 562949953421312)"
  by (simp only: zScore_of_def shifted_avg shifted_sd shifted_v0 shifted_dev0 shifted_zdiv0 js_abs.simps) simp

lemma shifted_zdiv1:
  "js_divide (Finite (225179981368525 / 281474976710656)) (Finite (3602879701896397 / 9007199254740992))
     = Finite (1125899906842625 / 562949953421312)"
proof -
  have "round64 ((225179981368525 / 281474976710656) / (3602879701896397 / 9007199254740992)) = Finite (1125899906842625 / 562949953421312)"
    by (rule round64_nearest [where e = "1" and m = "4503599627370500"]) (simp_all add: pow2_def)
  then show ?thesis by simp
qed

lemma shifted_z1:
  "zScore_of [tideReading ''A'' 11, tideReading ''A'' 11, tideReading ''A'' 11, tideReading ''A'' 11, tideReading ''A'' 12] (tideReading ''A'' 12)
     = Finite (1125899906842625 / 562949953421312)"
  by (simp only: zScore_of_def shifted_avg shifted_sd shifted_v1 shifted_dev1 shifted_zdiv1 js_abs.simps) simp

lemma level_avg:
  "avgTide_of [tideReading ''A'' 1, tideReading ''A'' 1, tideReading ''A'' 1, tideReading ''A'' 1, tideReading ''A'' 1, tideReading ''A'' 1, tideReading ''A'' 1, tideReading ''A'' 1, tideReading ''A'' 1, tideReading ''A'' 11]
     = Finite (2)"
proof -
  have "avgTide_of [tideReading ''A'' 1, tideReading ''A'' 1, tideReading ''A'' 1, tideReading ''A'' 1, tideReading ''A'' 1, tideReading ''A'' 1, tideReading ''A'' 1, tideReading ''A'' 1, tideReading ''A'' 1, tideReading ''A'' 11]
          = round64 (20 / 10)"
    by (simp add: avgTide_of_def reduce_add_def tideReading_def)
  also have "\<dots> = Finite (2)"
    by (rule round64_nearest [where e = "1" and m = "4503599627370496"]) (simp_all add: pow2_def)
  finally show ?thesis .
qed

lemma level_dev0:
  "js_sub (Finite 1) (Finite (2))
     = Finite ((- 1))"
  unfolding js_sub_def js_neg.simps js_add.simps
  by (rule round64_nearest [where e = "0" and m = "- 4503599627370496"]) (simp_all add: pow2_def)

lemma level_sq0:
  "js_square (Finite ((- 1)))
     = Finite (1)"
  unfolding js_square.simps
  by (rule round64_nearest [where e = "0" and m = "4503599627370496"]) (simp_all add: pow2_def)

lemma level_dev1:
  "js_sub (Finite 11) (Finite (2))
     = Finite (9)"
  unfolding js_sub_def js_neg.simps js_add.simps
  by (rule round64_nearest [where e = "3" and m = "5066549580791808"]) (simp_all add: pow2_def)

lemma level_sq1:
  "js_square (Finite (9))
     = Finite (81)"
  unfolding js_square.simps
  by (rule round64_nearest [where e = "6" and m = "5699868278390784"]) (simp_all add: pow2_def)

lemma level_acc0:
  "js_add (Finite 0) (Finite (1))
     = Finite (1)"
  unfolding js_add.simps
  by (rule round64_nearest [where e = "0" and m = "4503599627370496"]) (simp_all add: pow2_def)

lemma level_acc1:
  "js_add (Finite 1) (Finite (1))
     = Finite (2)"
  unfolding js_add.simps
  by (rule round64_nearest [where e = "1" and m = "4503599627370496"]) (simp_all add: pow2_def)

lemma level_acc2:
  "js_add (Finite 2) (Finite (1))
     = Finite (3)"
  unfolding js_add.simps
  by (rule round64_nearest [where e = "1" and m = "6755399441055744"]) (simp_all add: pow2_def)

lemma level_acc3:
  "js_add (Finite 3) (Finite (1))
     = Finite (4)"
  unfolding js_add.simps
  by (rule round64_nearest [where e = "2" and m = "4503599627370496"]) (simp_all add: pow2_def)

lemma level_acc4:
  "js_add (Finite 4) (Finite (1))
     = Finite (5)"
  unfolding js_add.simps
  by (rule round64_nearest [where e = "2" and m = "5629499534213120"]) (simp_all add: pow2_def)

lemma level_acc5:
  "js_add (Finite 5) (Finite (1))
     = Finite (6)"
  unfolding js_add.simps
  by (rule round64_nearest [where e = "2" and m = "6755399441055744"]) (simp_all add: pow2_def)

lemma level_acc6:
  "js_add (Finite 6) (Finite (1))
     = Finite (7)"
  unfolding js_add.simps
  by (rule round64_nearest [where e = "2" and m = "7881299347898368"]) (simp_all add: pow2_def)

lemma level_acc7:
  "js_add (Finite 7) (Finite (1))
     = Finite (8)"
  unfolding js_add.simps
  by (rule round64_nearest [where e = "3" and m = "4503599627370496"]) (simp_all add: pow2_def)

lemma level_acc8:
  "js_add (Finite 8) (Finite (1))
     = Finite (9)"
  unfolding js_add.simps
  by (rule round64_nearest [where e = "3" and m = "5066549580791808"]) (simp_all add: pow2_def)

lemma level_acc9:
  "js_add (Finite 9) (Finite (81))
     = Finite (90)"
  unfolding js_add.simps
  by (rule round64_nearest [where e = "6" and m = "6333186975989760"]) (simp_all add: pow2_def)

lemma level_var:
  "js_divide (Finite (90)) (Finite 10)
     = Finite (9)"
proof -
  have "round64 ((90) / 10) = Finite (9)"
    by (rule round64_nearest [where e = "3" and m = "5066549580791808"]) (simp_all add: pow2_def)
  then show ?thesis by simp
qed

lemma level_sqrt:
  "js_sqrt (Finite (9))
     = Finite (3)"
proof -
  have "round64 (sqrt (9)) = Finite (3)"
    by (rule round64_sqrt_nearest [where e = "1" and m = "6755399441055744"]) (simp_all add: pow2_def)
  then show ?thesis by simp
qed

lemma level_v0: "sd_value (tideReading ''A'' 1) = 1"
  by (simp add: tideReading_def)

lemma level_v1: "sd_value (tideReading ''A'' 11) = 11"
  by (simp add: tideReading_def)

lemma level_len: "real (length [tideReading ''A'' 1, tideReading ''A'' 1, tideReading ''A'' 1, tideReading ''A'' 1, tideReading ''A'' 1, tideReading ''A'' 1, tideReading ''A'' 1, tideReading ''A'' 1, tideReading ''A'' 1, tideReading ''A'' 11]) = 10"
  by simp

lemma level_sd:
  "tideStdDev_of [tideReading ''A'' 1, tideReading ''A'' 1, tideReading ''A'' 1, tideReading ''A'' 1, tideReading ''A'' 1, tideReading ''A'' 1, tideReading ''A'' 1, tideReading ''A'' 1, tideReading ''A'' 1, tideReading ''A'' 11]
     = Finite (3)"
  by (simp only: tideStdDev_of_def reduce_add_def level_avg level_len foldl_Cons foldl_Nil
        level_v0 level_v1 level_dev0 level_sq0 level_dev1 level_sq1 level_acc0 level_acc1 level_acc2 level_acc3 level_acc4 level_acc5 level_acc6 level_acc7 level_acc8 level_acc9 level_var level_sqrt)

lemma level_zdiv0:
  "js_divide (Finite ((- 1))) (Finite (3))
     = Finite (- 6004799503160661 / 18014398509481984)"
proof -
  have "round64 (((- 1)) / (3)) = Finite (- 6004799503160661 / 18014398509481984)"
    by (rule round64_nearest [where e = "- 2" and m = "- 6004799503160661"]) (simp_all add: pow2_def)
  then show ?thesis by simp
qed

lemma level_z0:
  "zScore_of [tideReading ''A'' 1, tideReading ''A'' 1, tideReading ''A'' 1, tideReading ''A'' 1, tideReading ''A'' 1, tideReading ''A'' 1, tideReading ''A'' 1, tideReading ''A'' 1, tideReading ''A'' 1, tideReading ''A'' 11] (tideReading ''A'' 1)
     = Finite (6004799503160661 / 18014398509481984)"
  by (simp only: zScore_of_def level_avg level_sd level_v0 level_dev0 level_zdiv0 js_abs.simps) simp

lemma level_zdiv1:
  "js_divide (Finite (9)) (Finite (3))
     = Finite (3)"
proof -
  have "round64 ((9) / (3)) = Finite (3)"
    by (rule round64_nearest [where e = "1" and m = "6755399441055744"]) (simp_all add: pow2_def)
  then show ?thesis by simp
qed

lemma level_z1:
  "zScore_of [tideReading ''A'' 1, tideReading ''A'' 1, tideReading ''A'' 1, tideReading ''A'' 1, tideReading ''A'' 1, tideReading ''A'' 1, tideReading ''A'' 1, tideReading ''A'' 1, tideReading ''A'' 1, tideReading ''A'' 11] (tideReading ''A'' 11)
     = Finite (3)"
  by (simp only: zScore_of_def level_avg level_sd level_v1 level_dev1 level_zdiv1 js_abs.simps) simp

lemma lit64_03: "lit64 0.3 = 5404319552844595 / 18014398509481984"
proof -
  have "round64 0.3 = Finite (5404319552844595 / 18014398509481984)"
    by (rule round64_nearest [where e = "- 2" and m = "5404319552844595"]) (simp_all add: pow2_def)
  then show ?thesis by (simp add: lit64_def)
qed

lemma lit64_095: "lit64 0.95 = 4278419646001971 / 4503599627370496"
proof -
  have "round64 0.95 = Finite (4278419646001971 / 4503599627370496)"
    by (rule round64_nearest [where e = "- 1" and m = "8556839292003942"]) (simp_all add: pow2_def)
  then show ?thesis by (simp add: lit64_def)
qed

lemma lit64_025: "lit64 0.25 = 1 / 4"
proof -
  have "round64 0.25 = Finite (1 / 4)"
    by (rule round64_nearest [where e = "- 2" and m = "4503599627370496"]) (simp_all add: pow2_def)
  then show ?thesis by (simp add: lit64_def)
qed

lemma lit64_09: "lit64 0.9 = 8106479329266893 / 9007199254740992"
proof -
  have "round64 0.9 = Finite (8106479329266893 / 9007199254740992)"
    by (rule round64_nearest [where e = "- 1" and m = "8106479329266893"]) (simp_all add: pow2_def)
  then show ?thesis by (simp add: lit64_def)
qed

lemma shifted_prob:
  "js_times (Finite (1125899906842625 / 562949953421312)) (5404319552844595 / 18014398509481984)
     = Finite (675539944105575 / 1125899906842624)"
  unfolding js_times.simps
  by (rule round64_nearest [where e = "- 1" and m = "5404319552844600"]) (simp_all add: pow2_def)

lemma shifted_conf:
  "js_times (Finite (1125899906842625 / 562949953421312)) (1 / 4)
     = Finite (1125899906842625 / 2251799813685248)"
  unfolding js_times.simps
  by (rule round64_nearest [where e = "- 1" and m = "4503599627370500"]) (simp_all add: pow2_def)

lemma level_prob:
  "js_times (Finite (3)) (5404319552844595 / 18014398509481984)
     = Finite (2026619832316723 / 2251799813685248)"
  unfolding js_times.simps
  by (rule round64_tie [where e = "- 1" and m = "8106479329266892"]) (simp_all add: pow2_def)

lemma level_conf:
  "js_times (Finite (3)) (1 / 4)
     = Finite (3 / 4)"
  unfolding js_times.simps
  by (rule round64_nearest [where e = "- 1" and m = "6755399441055744"]) (simp_all add: pow2_def)

lemma sd_type_tideReading: "sd_type (tideReading place v) = tide_gauge"
  by (simp add: tideReading_def)

lemma sd_value_tideReading: "sd_value (tideReading place v) = v"
  by (simp add: tideReading_def)

lemma addTideOffset_tideReading:
  "addTideOffset c (tideReading place v) = tideReading place (v + c)"
  by (simp add: addTideOffset_def tideReading_def)

lemma locationAnomalies_tide_only:
  "filter (\<lambda>s. sd_type s = tide_gauge) sensors = sensors \<Longrightarrow>
   locationAnomalies location sensors = tideAnomalies location sensors"
proof -
  assume a: "filter (\<lambda>s. sd_type s = tide_gauge) sensors = sensors"
  then have t: "\<And>s. s \<in> set sensors \<Longrightarrow> sd_type s = tide_gauge"
    by (metis (mono_tags, lifting) filter_id_conv)
  have w: "filter (\<lambda>s. sd_type s = weather_station) sensors = []"
    and q: "filter (\<lambda>s. sd_type s = water_quality) sensors = []"
    using t by (auto simp: filter_empty_conv)
  show ?thesis
    by (simp add: locationAnomalies_def a w q windAnomalies_def qualityAnomalies_def)
qed

lemma plain_anomalies:
  "tideAnomalies ''A'' [tideReading ''A'' 1, tideReading ''A'' 1, tideReading ''A'' 1,
            tideReading ''A'' 1, tideReading ''A'' 2] = []"
  by (simp add: tideAnomalies_def Let_def plain_z0 plain_z1)

lemma shifted_anomalies:
  "tideAnomalies ''A'' [tideReading ''A'' 11, tideReading ''A'' 11, tideReading ''A'' 11,
            tideReading ''A'' 11, tideReading ''A'' 12]
   = [\<lparr>p_threatType = ''Storm Surge Risk'',
       p_probability = Finite (675539944105575 / 1125899906842624),
       p_confidence = Finite (1125899906842625 / 2251799813685248),
       p_location = ''A'',
       p_features = [[Str ''Tide level: '', Num 12, Str ''m''],
                     [Str ''Z-score: '', Fixed 2 (1125899906842625 / 562949953421312)]]\<rparr>]"
  unfolding tideAnomalies_def lit64_03 lit64_095 lit64_025 lit64_09
  by (simp add: Let_def shifted_z0 shifted_z1 shifted_avg sd_value_tideReading shifted_prob shifted_conf
        del: js_times.simps)

lemma level_anomalies:
  "tideAnomalies ''A'' [tideReading ''A'' 1, tideReading ''A'' 1, tideReading ''A'' 1,
            tideReading ''A'' 1, tideReading ''A'' 1, tideReading ''A'' 1,
            tideReading ''A'' 1, tideReading ''A'' 1, tideReading ''A'' 1,
            tideReading ''A'' 11]
   = [\<lparr>p_threatType = ''Storm Surge Risk'',
       p_probability = Finite (2026619832316723 / 2251799813685248),
       p_confidence = Finite (3 / 4),
       p_location = ''A'',
       p_features = [[Str ''Tide level: '', Num 11, Str ''m''],
                     [Str ''Z-score: '', Fixed 2 3]]\<rparr>]"
  unfolding tideAnomalies_def lit64_03 lit64_095 lit64_025 lit64_09
  by (simp add: Let_def level_z0 level_z1 level_avg sd_value_tideReading level_prob level_conf
        del: js_times.simps)

theorem tide_zscore_offset_exact_mean_witness:
  "avgTide_of (filter (\<lambda>s. sd_type s = tide_gauge) [tideReading ''A'' 1, tideReading ''A'' 1, tideReading ''A'' 1,
            tideReading ''A'' 1, tideReading ''A'' 1, tideReading ''A'' 1,
            tideReading ''A'' 1, tideReading ''A'' 1, tideReading ''A'' 1,
            tideReading ''A'' 11]) = Finite 2
   \<and> avgTide_of (filter (\<lambda>s. sd_type s = tide_gauge)
        (map (addTideOffset 4) [tideReading ''A'' 1, tideReading ''A'' 1, tideReading ''A'' 1,
            tideReading ''A'' 1, tideReading ''A'' 1, tideReading ''A'' 1,
            tideReading ''A'' 1, tideReading ''A'' 1, tideReading ''A'' 1,
            tideReading ''A'' 11])) = Finite (2 + 4)
   \<and> map predictionCore (locationAnomalies ''A''
        (map (addTideOffset 4) [tideReading ''A'' 1, tideReading ''A'' 1, tideReading ''A'' 1,
            tideReading ''A'' 1, tideReading ''A'' 1, tideReading ''A'' 1,
            tideReading ''A'' 1, tideReading ''A'' 1, tideReading ''A'' 1,
            tideReading ''A'' 11]))
     = map predictionCore (locationAnomalies ''A'' [tideReading ''A'' 1, tideReading ''A'' 1, tideReading ''A'' 1,
            tideReading ''A'' 1, tideReading ''A'' 1, tideReading ''A'' 1,
            tideReading ''A'' 1, tideReading ''A'' 1, tideReading ''A'' 1,
            tideReading ''A'' 11])
   \<and> map predictionCore (locationAnomalies ''A'' [tideReading ''A'' 1, tideReading ''A'' 1, tideReading ''A'' 1,
            tideReading ''A'' 1, tideReading ''A'' 1, tideReading ''A'' 1,
            tideReading ''A'' 1, tideReading ''A'' 1, tideReading ''A'' 1,
            tideReading ''A'' 11])
     = [(''Storm Surge Risk'', Finite (2026619832316723 / 2251799813685248), Finite (3 / 4),
         ''A'')]"
proof -
  let ?W = "[tideReading ''A'' 1, tideReading ''A'' 1, tideReading ''A'' 1,
            tideReading ''A'' 1, tideReading ''A'' 1, tideReading ''A'' 1,
            tideReading ''A'' 1, tideReading ''A'' 1, tideReading ''A'' 1,
            tideReading ''A'' 11]"
  have f: "filter (\<lambda>s. sd_type s = tide_gauge) ?W = ?W"
    by (simp add: sd_type_tideReading)
  have m: "map (addTideOffset 4) ?W = [tideReading ''A'' 5, tideReading ''A'' 5, tideReading ''A'' 5,
            tideReading ''A'' 5, tideReading ''A'' 5, tideReading ''A'' 5,
            tideReading ''A'' 5, tideReading ''A'' 5, tideReading ''A'' 5,
            tideReading ''A'' 15]"
    by (simp add: addTideOffset_tideReading)
  have h1: "avgTide_of (filter (\<lambda>s. sd_type s = tide_gauge) ?W) = Finite 2"
    unfolding f by (simp add: avgTide_of_def reduce_add_def sd_value_tideReading)
  have h2: "avgTide_of (filter (\<lambda>s. sd_type s = tide_gauge) (map (addTideOffset 4) ?W))
              = Finite (2 + 4)"
    unfolding m
    by (simp add: avgTide_of_def reduce_add_def sd_value_tideReading sd_type_tideReading)
  have e: "map predictionCore (locationAnomalies ''A'' ?W)
     = [(''Storm Surge Risk'', Finite (2026619832316723 / 2251799813685248), Finite (3 / 4),
         ''A'')]"
    unfolding locationAnomalies_tide_only [OF f] level_anomalies
    by (simp add: predictionCore_def)
  from tide_zscore_offset_exact_mean [OF h1 h2, of "''A''"] h1 h2 e
  show ?thesis by blast
qed

text \<open>
  The statement as first made has no condition on the mean. In binary64 it fails: for
  the tide values 1, 1, 1, 1, 2 the mean 6/5 rounds to 1.2, the last reading's z-score
  is exactly 2, which is not above the threshold, and nothing is flagged; with 10 added
  the mean 56/5 rounds to 11.2, the last reading's z-score is 2.0000000000000018 and a
  Storm Surge Risk is flagged, with probability 0.6000000000000005 and confidence
  0.5000000000000004.
\<close>

theorem tide_zscore_offset_counterexample:
  "locationAnomalies ''A'' [tideReading ''A'' 1, tideReading ''A'' 1, tideReading ''A'' 1,
            tideReading ''A'' 1, tideReading ''A'' 2] = []
   \<and> zScore_of [tideReading ''A'' 1, tideReading ''A'' 1, tideReading ''A'' 1,
            tideReading ''A'' 1, tideReading ''A'' 2] (tideReading ''A'' 2) = Finite 2
   \<and> map (addTideOffset 10) [tideReading ''A'' 1, tideReading ''A'' 1, tideReading ''A'' 1,
            tideReading ''A'' 1, tideReading ''A'' 2]
     = [tideReading ''A'' 11, tideReading ''A'' 11, tideReading ''A'' 11,
            tideReading ''A'' 11, tideReading ''A'' 12]
   \<and> zScore_of (map (addTideOffset 10) [tideReading ''A'' 1, tideReading ''A'' 1, tideReading ''A'' 1,
            tideReading ''A'' 1, tideReading ''A'' 2])
        (addTideOffset 10 (tideReading ''A'' 2))
     = Finite (1125899906842625 / 562949953421312)
   \<and> map predictionCore (locationAnomalies ''A''
        (map (addTideOffset 10) [tideReading ''A'' 1, tideReading ''A'' 1, tideReading ''A'' 1,
            tideReading ''A'' 1, tideReading ''A'' 2]))
     = [(''Storm Surge Risk'', Finite (675539944105575 / 1125899906842624),
         Finite (1125899906842625 / 2251799813685248), ''A'')]
   \<and> zScore_of (map (addTideOffset 10) [tideReading ''A'' 1, tideReading ''A'' 1, tideReading ''A'' 1,
            tideReading ''A'' 1, tideReading ''A'' 2])
        (addTideOffset 10 (tideReading ''A'' 2))
     \<noteq> zScore_of [tideReading ''A'' 1, tideReading ''A'' 1, tideReading ''A'' 1,
            tideReading ''A'' 1, tideReading ''A'' 2] (tideReading ''A'' 2)
   \<and> map predictionCore (locationAnomalies ''A''
        (map (addTideOffset 10) [tideReading ''A'' 1, tideReading ''A'' 1, tideReading ''A'' 1,
            tideReading ''A'' 1, tideReading ''A'' 2]))
     \<noteq> map predictionCore (locationAnomalies ''A'' [tideReading ''A'' 1, tideReading ''A'' 1, tideReading ''A'' 1,
            tideReading ''A'' 1, tideReading ''A'' 2])"
proof -
  let ?A = "[tideReading ''A'' 1, tideReading ''A'' 1, tideReading ''A'' 1,
            tideReading ''A'' 1, tideReading ''A'' 2]"
  let ?B = "[tideReading ''A'' 11, tideReading ''A'' 11, tideReading ''A'' 11,
            tideReading ''A'' 11, tideReading ''A'' 12]"
  have fa: "filter (\<lambda>s. sd_type s = tide_gauge) ?A = ?A"
    and fb: "filter (\<lambda>s. sd_type s = tide_gauge) ?B = ?B"
    by (simp_all add: sd_type_tideReading)
  have m: "map (addTideOffset 10) ?A = ?B"
    by (simp add: addTideOffset_tideReading)
  have t: "addTideOffset 10 (tideReading ''A'' 2) = tideReading ''A'' 12"
    by (simp add: addTideOffset_tideReading)
  have 1: "locationAnomalies ''A'' ?A = []"
    unfolding locationAnomalies_tide_only [OF fa] by (rule plain_anomalies)
  have 2: "zScore_of ?A (tideReading ''A'' 2) = Finite 2"
    by (rule plain_z1)
  have 3: "zScore_of (map (addTideOffset 10) ?A) (addTideOffset 10 (tideReading ''A'' 2))
             = Finite (1125899906842625 / 562949953421312)"
    unfolding m t by (rule shifted_z1)
  have 4: "map predictionCore (locationAnomalies ''A'' (map (addTideOffset 10) ?A))
     = [(''Storm Surge Risk'', Finite (675539944105575 / 1125899906842624),
         Finite (1125899906842625 / 2251799813685248), ''A'')]"
    unfolding m locationAnomalies_tide_only [OF fb] shifted_anomalies
    by (simp add: predictionCore_def)
  from 2 3 have 5: "zScore_of (map (addTideOffset 10) ?A) (addTideOffset 10 (tideReading ''A'' 2))
             \<noteq> zScore_of ?A (tideReading ''A'' 2)"
    by simp
  from 1 4 have 6: "map predictionCore (locationAnomalies ''A'' (map (addTideOffset 10) ?A))
             \<noteq> map predictionCore (locationAnomalies ''A'' ?A)"
    by simp
  from 1 2 m 3 4 5 6 show ?thesis by blast
qed

subsection \<open>Water quality on one location group\<close>






subsection \<open>Alerts from predictions\<close>

lemma pushGroup_keys: "fst ` set (pushGroup key s acc) = insert key (fst ` set acc)"
  by (induction key s acc rule: pushGroup.induct) (auto simp: rev_image_eqI)

lemma locationGroups_keys:
  "locationGroups data acc = Inr groups \<Longrightarrow>
   fst ` set groups = fst ` set acc \<union> (\<lambda>s. name (sd_location s)) ` set data"
proof (induction data arbitrary: acc)
  case Nil
  then show ?case by simp
next
  case (Cons s data)
  from Cons.prems have "locationGroups data (pushGroup (name (sd_location s)) s acc) = Inr groups"
    by (simp add: Let_def split: if_splits)
  from Cons.IH [OF this] show ?case
    by (simp add: pushGroup_keys)
qed

lemma set_objectEntries: "set (objectEntries obj) = set obj"
  by (auto simp: objectEntries_def)

lemma tideAnomalies_location:
  "p \<in> set (tideAnomalies location td) \<Longrightarrow> p_location p = location"
  by (auto simp: tideAnomalies_def Let_def split: if_splits)

lemma locationAnomalies_location:
  "p \<in> set (locationAnomalies location sensors) \<Longrightarrow> p_location p = location"
  by (auto simp: locationAnomalies_def Let_def windAnomalies_eq qualityAnomalies_eq
        dest: tideAnomalies_location split: if_splits)

lemma detectAnomalies_locations:
  assumes "detectAnomalies data = Inr anomalies" "p \<in> set anomalies"
  shows "\<exists>s \<in> set data. name (sd_location s) = p_location p"
proof -
  from assms(1) obtain groups where g: "locationGroups data [] = Inr groups"
    and a: "anomalies = concat (map (\<lambda>(location, sensors). locationAnomalies location sensors)
                        (objectEntries groups))"
    by (auto simp: detectAnomalies_def split: sum.splits)
  from assms(2) a obtain location sensors where e: "(location, sensors) \<in> set groups"
    and p: "p \<in> set (locationAnomalies location sensors)"
    by (auto simp: set_objectEntries)
  from p have "p_location p = location" by (rule locationAnomalies_location)
  moreover from e have "location \<in> fst ` set groups" by force
  ultimately show ?thesis
    using locationGroups_keys [OF g] by auto
qed

lemma find_location_Some:
  "\<exists>s \<in> set data. name (sd_location s) = l \<Longrightarrow>
   \<exists>s. find (\<lambda>s. name (sd_location s) = l) data = Some s \<and> name (sd_location s) = l"
  by (induction data) auto

lemma runPredictions_loop_summary:
  assumes "\<And>p. p \<in> set ps \<Longrightarrow> \<exists>s \<in> set data. name (sd_location s) = p_location p"
  shows "map alertSummary (snd (runPredictions_loop clock rnd data ps st))
           = map alertSummary (snd st)
             @ map predictedSummary (filter (\<lambda>p. js_gt (p_probability p) 0.7) ps)"
  using assms
proof (induction ps arbitrary: st)
  case Nil
  show ?case by simp
next
  case (Cons p ps)
  have "\<exists>s \<in> set data. name (sd_location s) = p_location p"
    by (rule Cons.prems) simp
  then obtain s where s: "find (\<lambda>s. name (sd_location s) = p_location p) data = Some s"
    and n: "name (sd_location s) = p_location p"
    using find_location_Some by blast
  have ih: "map alertSummary (snd (runPredictions_loop clock rnd data ps st'))
           = map alertSummary (snd st')
             @ map predictedSummary (filter (\<lambda>p. js_gt (p_probability p) 0.7) ps)" for st'
    by (rule Cons.IH) (simp add: Cons.prems)
  show ?case
    unfolding runPredictions_loop.simps ih
    by (simp add: s n alertSummary_def predictedSummary_def predictionThreat_def)
qed

lemma runPredictions_alerts_Inr:
  assumes "detectAnomalies sensorData = Inr anomalies"
  shows "map alertSummary (predictionEffect clock rnd True sensorData)
           = map predictedSummary
               (filter (\<lambda>p. js_gt (p_probability p) 0.7
                         \<and> list_ex (\<lambda>s. name (sd_location s) = p_location p) sensorData)
                  anomalies)
       \<and> length (predictionEffect clock rnd True sensorData)
           = length (filter (\<lambda>p. js_gt (p_probability p) 0.7) anomalies)
       \<and> list_all (\<lambda>p. list_ex (\<lambda>s. name (sd_location s) = p_location p) sensorData)
            anomalies
       \<and> predictionEffect clock rnd False sensorData = []"
proof -
  have loc: "\<exists>s \<in> set sensorData. name (sd_location s) = p_location p"
    if "p \<in> set anomalies" for p
    using assms that by (rule detectAnomalies_locations)
  then have all: "list_all (\<lambda>p. list_ex (\<lambda>s. name (sd_location s) = p_location p) sensorData)
            anomalies"
    by (simp add: list_all_iff list_ex_iff)
  then have flt: "filter (\<lambda>p. js_gt (p_probability p) 0.7
                         \<and> list_ex (\<lambda>s. name (sd_location s) = p_location p) sensorData)
                  anomalies
        = filter (\<lambda>p. js_gt (p_probability p) 0.7) anomalies"
    by (intro filter_cong refl) (simp add: list_all_iff)
  have run: "map alertSummary (runPredictions clock rnd sensorData)
           = map predictedSummary (filter (\<lambda>p. js_gt (p_probability p) 0.7) anomalies)"
    using runPredictions_loop_summary [of anomalies sensorData clock rnd "(0, [])"] loc
    by (simp add: runPredictions_def assms)
  have eff: "predictionEffect clock rnd True sensorData = runPredictions clock rnd sensorData"
  proof (cases "sensorData = []")
    case True
    then show ?thesis
      by (simp add: predictionEffect_def runPredictions_def detectAnomalies_def
            objectEntries_def)
  next
    case False
    then show ?thesis by (simp add: predictionEffect_def)
  qed
  have m: "map alertSummary (predictionEffect clock rnd True sensorData)
           = map predictedSummary (filter (\<lambda>p. js_gt (p_probability p) 0.7) anomalies)"
    unfolding eff by (rule run)
  from m have len: "length (predictionEffect clock rnd True sensorData)
           = length (filter (\<lambda>p. js_gt (p_probability p) 0.7) anomalies)"
    using length_map by metis
  have off: "predictionEffect clock rnd False sensorData = []"
    by (simp add: predictionEffect_def)
  show ?thesis
    unfolding flt by (intro conjI m len all off)
qed

lemma runPredictions_alerts_Inl:
  "detectAnomalies sensorData = Inl e \<Longrightarrow> predictionEffect clock rnd True sensorData = []"
  by (simp add: predictionEffect_def runPredictions_def)

text \<open>
  C2. For every list of sensor readings, once the model is trained: every prediction of
  the heuristic whose probability is strictly greater than 0.7 and whose location name
  is that of some reading in the list becomes exactly one alert handed to
  onThreatDetected, in the order of the predictions, and every other prediction becomes
  none; every prediction's location name is that of some reading. When the heuristic
  throws instead of returning predictions, or while the model is not trained, no alert
  is handed on.
\<close>

theorem runPredictions_alerts:
  "(case detectAnomalies sensorData of
      Inl e \<Rightarrow> predictionEffect clock rnd True sensorData = []
    | Inr anomalies \<Rightarrow>
        map alertSummary (predictionEffect clock rnd True sensorData)
          = map predictedSummary
              (filter (\<lambda>p. js_gt (p_probability p) 0.7
                        \<and> list_ex (\<lambda>s. name (sd_location s) = p_location p) sensorData)
                 anomalies)
        \<and> length (predictionEffect clock rnd True sensorData)
          = length (filter (\<lambda>p. js_gt (p_probability p) 0.7) anomalies)
        \<and> list_all (\<lambda>p. list_ex (\<lambda>s. name (sd_location s) = p_location p) sensorData)
             anomalies)
   \<and> predictionEffect clock rnd False sensorData = []"
proof (cases "detectAnomalies sensorData")
  case (Inl e)
  then show ?thesis
    using runPredictions_alerts_Inl [OF Inl, of clock rnd]
    by (simp add: predictionEffect_def)
next
  case (Inr anomalies)
  then show ?thesis
    using runPredictions_alerts_Inr [OF Inr, of clock rnd] by simp
qed

lemma detectAnomalies_sample:
  "detectAnomalies [weatherReading ''A'' 100, qualityReading ''A'' 20]
     = Inr [\<lparr>p_threatType = ''Cyclonic Activity'', p_probability = Finite 0.95,
             p_confidence = Finite 0.9, p_location = ''A'',
             p_features = [[Str ''Wind speed: '', Num 100, Str '' km/h''],
                           [Str ''Sustained high winds detected'']]\<rparr>,
            \<lparr>p_threatType = ''Water Pollution'', p_probability = Finite 0.5,
             p_confidence = Finite 0.6, p_location = ''A'',
             p_features = [[Str ''Water quality: '', Num 20, Str '' ppm''],
                           [Str ''Below safety threshold'']]\<rparr>]"
  by (simp add: detectAnomalies_def weatherReading_def qualityReading_def Let_def
        objectPrototypeKeys_def objectEntries_def isArrayIndex_def isDigit_def
        locationAnomalies_def tideAnomalies_def windAnomalies_def qualityAnomalies_def)

theorem runPredictions_alerts_witness:
  "detectAnomalies [weatherReading ''A'' 100, qualityReading ''A'' 20]
     = Inr [\<lparr>p_threatType = ''Cyclonic Activity'', p_probability = Finite 0.95,
             p_confidence = Finite 0.9, p_location = ''A'',
             p_features = [[Str ''Wind speed: '', Num 100, Str '' km/h''],
                           [Str ''Sustained high winds detected'']]\<rparr>,
            \<lparr>p_threatType = ''Water Pollution'', p_probability = Finite 0.5,
             p_confidence = Finite 0.6, p_location = ''A'',
             p_features = [[Str ''Water quality: '', Num 20, Str '' ppm''],
                           [Str ''Below safety threshold'']]\<rparr>]
   \<and> map alertSummary (predictionEffect (\<lambda>k. int k) (\<lambda>k. ''x7'') True
          [weatherReading ''A'' 100, qualityReading ''A'' 20])
       = [(''cyclonic_activity'', critical, ''A'')]
   \<and> length (predictionEffect (\<lambda>k. int k) (\<lambda>k. ''x7'') True
          [weatherReading ''A'' 100, qualityReading ''A'' 20]) = 1"
proof -
  note d = detectAnomalies_sample
  from runPredictions_alerts
         [where sensorData = "[weatherReading ''A'' 100, qualityReading ''A'' 20]"
            and clock = "\<lambda>k. int k" and rnd = "\<lambda>k. ''x7''"] d
  show ?thesis
    by (simp add: predictedSummary_def weatherReading_def qualityReading_def
          toLowerCase_def toLowerChar_def isSpace_def)
qed

subsection \<open>Chatbot replies\<close>

lemma includes_str_map:
  "includes_str s sub \<Longrightarrow> includes_str (map f s) (map f sub)"
proof (induction s)
  case Nil
  then show ?case by simp
next
  case (Cons c cs)
  from Cons.prems consider "take (length sub) (c # cs) = sub" | "includes_str cs sub"
    by auto
  then show ?case
  proof cases
    case 1
    then have "take (length (map f sub)) (map f (c # cs)) = map f sub"
      by (metis length_map take_map)
    then show ?thesis by (simp del: take_map)
  next
    case 2
    then show ?thesis using Cons.IH by simp
  qed
qed

lemma includes_toLowerCase:
  "includes_str s sub \<Longrightarrow> toLowerCase sub = sub \<Longrightarrow> includes_str (toLowerCase s) sub"
  unfolding toLowerCase_def using includes_str_map [of s sub toLowerChar] by simp

lemma js_div_length_NaN:
  "js_div (reduce_sum f xs) (real (length xs)) = NaN \<longleftrightarrow> xs = []"
  by (simp add: js_div_def reduce_sum_def)

lemma js_div_length_Finite:
  "xs \<noteq> [] \<Longrightarrow> js_div (reduce_sum f xs) (real (length xs))
      = Finite (reduce_sum f xs / real (length xs))"
  by (simp add: js_div_def)

text \<open>
  C9. In the chatbot's reply, for every message containing 'tide' or 'water level', the
  average tide level is the sum of the tide_gauge values divided by the number of
  tide_gauge readings, with no test for emptiness; the divisor is zero (and the quotient
  NaN, printed as such) exactly when the current readings hold no tide_gauge reading,
  and the quotient is the finite mean when they hold at least one.
\<close>

theorem generateResponse_tide_average:
  assumes "includes_str userMessage ''tide'' \<or> includes_str userMessage ''water level''"
  shows "generateResponse rnd sensorData alerts userMessage
           = [Str ''Current average tide level is '',
              toFixed 2 (js_div (reduce_sum sd_value (filter (\<lambda>s. sd_type s = tide_gauge) sensorData))
                           (real (length (filter (\<lambda>s. sd_type s = tide_gauge) sensorData)))),
              Str '' meters. '',
              Str (if list_ex (\<lambda>s. sd_status s \<noteq> st_normal)
                        (filter (\<lambda>s. sd_type s = tide_gauge) sensorData)
                   then ''Some stations are showing abnormal readings that require attention.''
                   else ''All tide gauges are operating within normal parameters.'')]
       \<and> (real (length (filter (\<lambda>s. sd_type s = tide_gauge) sensorData)) \<noteq> 0
            \<longleftrightarrow> list_ex (\<lambda>s. sd_type s = tide_gauge) sensorData)
       \<and> (js_div (reduce_sum sd_value (filter (\<lambda>s. sd_type s = tide_gauge) sensorData))
             (real (length (filter (\<lambda>s. sd_type s = tide_gauge) sensorData))) \<noteq> NaN
            \<longleftrightarrow> list_ex (\<lambda>s. sd_type s = tide_gauge) sensorData)
       \<and> (list_ex (\<lambda>s. sd_type s = tide_gauge) sensorData \<longrightarrow>
            js_div (reduce_sum sd_value (filter (\<lambda>s. sd_type s = tide_gauge) sensorData))
              (real (length (filter (\<lambda>s. sd_type s = tide_gauge) sensorData)))
            = Finite (sum_list (map sd_value (filter (\<lambda>s. sd_type s = tide_gauge) sensorData))
                      / real (length (filter (\<lambda>s. sd_type s = tide_gauge) sensorData))))"
proof -
  let ?td = "filter (\<lambda>s. sd_type s = tide_gauge) sensorData"
  have l1: "toLowerCase ''tide'' = ''tide''" and l2: "toLowerCase ''water level'' = ''water level''"
    by (simp_all add: toLowerCase_def toLowerChar_def)
  from assms have c: "includes_str (toLowerCase userMessage) ''tide''
           \<or> includes_str (toLowerCase userMessage) ''water level''"
    using includes_toLowerCase [OF _ l1] includes_toLowerCase [OF _ l2] by blast
  have e: "?td = [] \<longleftrightarrow> \<not> list_ex (\<lambda>s. sd_type s = tide_gauge) sensorData"
    by (simp add: list_ex_iff filter_empty_conv)
  have r: "generateResponse rnd sensorData alerts userMessage
           = [Str ''Current average tide level is '',
              toFixed 2 (js_div (reduce_sum sd_value ?td) (real (length ?td))),
              Str '' meters. '',
              Str (if list_ex (\<lambda>s. sd_status s \<noteq> st_normal) ?td
                   then ''Some stations are showing abnormal readings that require attention.''
                   else ''All tide gauges are operating within normal parameters.'')]"
    unfolding generateResponse_def Let_def if_P [OF c] ..
  have z: "real (length ?td) \<noteq> 0 \<longleftrightarrow> list_ex (\<lambda>s. sd_type s = tide_gauge) sensorData"
    using e by simp
  have n: "js_div (reduce_sum sd_value ?td) (real (length ?td)) \<noteq> NaN
            \<longleftrightarrow> list_ex (\<lambda>s. sd_type s = tide_gauge) sensorData"
    unfolding js_div_length_NaN using e by simp
  have f: "list_ex (\<lambda>s. sd_type s = tide_gauge) sensorData \<longrightarrow>
            js_div (reduce_sum sd_value ?td) (real (length ?td))
            = Finite (sum_list (map sd_value ?td) / real (length ?td))"
    using e js_div_length_Finite [of ?td sd_value]
    by (simp add: reduce_sum_def foldl_add_sum_list)
  from r z n f show ?thesis by blast
qed

theorem generateResponse_tide_average_witness:
  "includes_str ''Is the TIDE high? tide'' ''tide''
   \<and> generateResponse 0 [weatherReading ''A'' 30] [] ''Is the TIDE high? tide''
       = [Str ''Current average tide level is '', Str ''NaN'', Str '' meters. '',
          Str ''All tide gauges are operating within normal parameters.'']
   \<and> list_ex (\<lambda>s. sd_type s = tide_gauge) [tideReading ''A'' 1, weatherReading ''A'' 30, tideReading ''B'' 2]
   \<and> generateResponse 0 [tideReading ''A'' 1, weatherReading ''A'' 30, tideReading ''B'' 2] []
         ''Is the TIDE high? tide''
       = [Str ''Current average tide level is '', Fixed 2 (3 / 2), Str '' meters. '',
          Str ''All tide gauges are operating within normal parameters.'']"
proof -
  have i: "includes_str ''Is the TIDE high? tide'' ''tide''" by simp
  then have h: "includes_str ''Is the TIDE high? tide'' ''tide''
       \<or> includes_str ''Is the TIDE high? tide'' ''water level''" ..
  have a: "list_ex (\<lambda>s. sd_type s = tide_gauge)
             [tideReading ''A'' 1, weatherReading ''A'' 30, tideReading ''B'' 2]"
    by (simp add: tideReading_def)
  from generateResponse_tide_average [OF h, of 0 "[weatherReading ''A'' 30]" "[]"]
  have r1: "generateResponse 0 [weatherReading ''A'' 30] [] ''Is the TIDE high? tide''
       = [Str ''Current average tide level is '', Str ''NaN'', Str '' meters. '',
          Str ''All tide gauges are operating within normal parameters.'']"
    by (simp add: weatherReading_def js_div_def reduce_sum_def)
  from generateResponse_tide_average [OF h, of 0
         "[tideReading ''A'' 1, weatherReading ''A'' 30, tideReading ''B'' 2]" "[]"]
  have r2: "generateResponse 0 [tideReading ''A'' 1, weatherReading ''A'' 30, tideReading ''B'' 2] []
         ''Is the TIDE high? tide''
       = [Str ''Current average tide level is '', Fixed 2 (3 / 2), Str '' meters. '',
          Str ''All tide gauges are operating within normal parameters.'']"
    by (simp add: weatherReading_def tideReading_def js_div_def reduce_sum_def)
  from i a r1 r2 show ?thesis by blast
qed

subsection \<open>Push channel\<close>

lemma unique_multiple:
  fixes b d y :: nat
  assumes d: "0 < d"
  shows "(b < y \<and> y \<le> b + d \<and> y mod d = 0) \<longleftrightarrow> y = d * (b div d + 1)"
proof
  assume a: "b < y \<and> y \<le> b + d \<and> y mod d = 0"
  define q where "q = y div d"
  from a have y: "y = q * d" unfolding q_def by auto
  from a y have "b < q * d" by simp
  then have 1: "b div d < q" using d by (simp only: div_less_iff_less_mult)
  from a y have "q * d \<le> b + d" by simp
  then have "q \<le> (b + d) div d" using d by (simp only: less_eq_div_iff_mult_less_eq)
  moreover have "(b + d) div d = b div d + 1" using d by simp
  ultimately have 2: "q \<le> b div d + 1" by simp
  from 1 2 have "q = b div d + 1" by linarith
  with y show "y = d * (b div d + 1)" by (simp add: mult.commute)
next
  assume y: "y = d * (b div d + 1)"
  have m: "b = d * (b div d) + b mod d" by simp
  have "b mod d < d" using d by simp
  with m have 1: "b < d * (b div d) + d" by linarith
  have 2: "d * (b div d) \<le> b" by simp
  have 3: "y = d * (b div d) + d" unfolding y by simp
  have 4: "y mod d = 0" unfolding y by simp
  from 1 2 3 4 show "b < y \<and> y \<le> b + d \<and> y mod d = 0"
    by linarith
qed

lemma fires_unique:
  assumes "0 < it_delay t" "it_start t \<le> a"
  shows "(a < now \<and> now \<le> a + it_delay t \<and> fires t now)
           \<longleftrightarrow> now = it_start t + it_delay t * ((a - it_start t) div it_delay t + 1)"
proof -
  define s where "s = it_start t"
  define d where "d = it_delay t"
  define k where "k = d * ((a - s) div d + 1)"
  have d0: "0 < d" and sa: "s \<le> a" using assms by (simp_all add: s_def d_def)
  have u: "(a - s < y \<and> y \<le> a - s + d \<and> y mod d = 0) \<longleftrightarrow> y = k" for y
    unfolding k_def by (rule unique_multiple [OF d0])
  have f: "fires t now \<longleftrightarrow> s < now \<and> (now - s) mod d = 0"
    by (simp add: fires_def s_def d_def)
  have k0: "0 < k" unfolding k_def using d0 by simp
  have "(a < now \<and> now \<le> a + d \<and> fires t now) \<longleftrightarrow> now = s + k"
  proof
    assume h: "a < now \<and> now \<le> a + d \<and> fires t now"
    with sa have 1: "a - s < now - s" and 2: "now - s \<le> a - s + d" by linarith+
    from h have "fires t now" by simp
    then have 3: "(now - s) mod d = 0" unfolding f by simp
    from 1 2 3 have "a - s < now - s \<and> now - s \<le> a - s + d \<and> (now - s) mod d = 0"
      by (intro conjI)
    then have "now - s = k" by (rule u [THEN iffD1])
    moreover from h sa have "s \<le> now" by linarith
    ultimately show "now = s + k" by linarith
  next
    assume n: "now = s + k"
    then have e: "now - s = k" by simp
    from e have c: "a - s < now - s \<and> now - s \<le> a - s + d \<and> (now - s) mod d = 0"
      by (rule u [THEN iffD2])
    from c have 1: "a - s < now - s" and 2: "now - s \<le> a - s + d"
      and 3: "(now - s) mod d = 0" by simp_all
    from n k0 have 4: "s < now" by linarith
    from 1 sa have 5: "a < now" by linarith
    from 2 sa 4 have 6: "now \<le> a + d" by linarith
    from 3 4 have "fires t now" unfolding f by simp
    with 5 6 show "a < now \<and> now \<le> a + d \<and> fires t now" by simp
  qed
  then show ?thesis unfolding s_def d_def k_def .
qed

lemma firings_in_period:
  assumes "0 < it_delay t" "it_start t \<le> a"
  shows "length (filter (fires t) [Suc a..<Suc (a + it_delay t)]) = 1"
proof -
  let ?k = "it_start t + it_delay t * ((a - it_start t) div it_delay t + 1)"
  have "{now. fires t now} \<inter> set [Suc a..<Suc (a + it_delay t)]
          = {now. a < now \<and> now \<le> a + it_delay t \<and> fires t now}"
    by auto
  also have "\<dots> = {?k}"
    using fires_unique [OF assms] by blast
  finally show ?thesis
    by (simp add: distinct_length_filter)
qed

lemma sum_list_indicator:
  "sum_list (map (\<lambda>x. if P x then 1 else 0) xs) = length (filter P xs)"
  by (induction xs) simp_all

lemma deliveries_by_timer:
  "sum_list (map (\<lambda>now. length (filter (\<lambda>t. P t \<and> F t now) ts)) ns)
     = sum_list (map (\<lambda>t. length (filter (F t) ns)) (filter P ts))"
proof (induction ts)
  case Nil
  show ?case by simp
next
  case (Cons t ts)
  have "sum_list (map (\<lambda>now. length (filter (\<lambda>t. P t \<and> F t now) (t # ts))) ns)
          = sum_list (map (\<lambda>now. (if P t \<and> F t now then 1 else 0)
                                  + length (filter (\<lambda>t. P t \<and> F t now) ts)) ns)"
    by (intro arg_cong [where f = sum_list] map_cong refl) simp
  also have "\<dots> = sum_list (map (\<lambda>now. if P t \<and> F t now then 1 else 0) ns)
                    + sum_list (map (\<lambda>now. length (filter (\<lambda>t. P t \<and> F t now) ts)) ns)"
    by (rule sum_list_addf)
  also have "sum_list (map (\<lambda>now. if P t \<and> F t now then 1 else 0) ns)
               = length (filter (\<lambda>now. P t \<and> F t now) ns)"
    by (rule sum_list_indicator)
  finally show ?case
    by (simp add: Cons.IH)
qed

lemma subscribeAt_readers_aux:
  "filter (\<lambda>t. it_action t = deliverReading)
      (foldl (\<lambda>timers now. connectWebSocket now timers) acc instants)
     = filter (\<lambda>t. it_action t = deliverReading) acc
       @ map (\<lambda>now. \<lparr>it_start = now, it_delay = 5000, it_action = deliverReading\<rparr>) instants"
  by (induction instants arbitrary: acc) (simp_all add: connectWebSocket_def)

lemma subscribeAt_readers:
  "filter (\<lambda>t. it_action t = deliverReading) (subscribeAt instants)
     = map (\<lambda>now. \<lparr>it_start = now, it_delay = 5000, it_action = deliverReading\<rparr>) instants"
  by (simp add: subscribeAt_def subscribeAt_readers_aux)

lemma readingDeliveriesIn_subscribeAt:
  assumes "list_all (\<lambda>t0. t0 \<le> a) instants"
  shows "readingDeliveriesIn (subscribeAt instants) a (a + 5000) = length instants"
proof -
  have one: "length (filter (fires \<lparr>it_start = t0, it_delay = 5000, it_action = deliverReading\<rparr>)
               [Suc a..<Suc (a + 5000)]) = 1" if "t0 \<in> set instants" for t0
  proof -
    from that assms have "t0 \<le> a" by (simp add: list_all_iff)
    then show ?thesis
      using firings_in_period
              [of "\<lparr>it_start = t0, it_delay = 5000, it_action = deliverReading\<rparr>" a]
      by simp
  qed
  have "readingDeliveriesIn (subscribeAt instants) a (a + 5000)
          = sum_list (map (\<lambda>t. length (filter (fires t) [Suc a..<Suc (a + 5000)]))
              (filter (\<lambda>t. it_action t = deliverReading) (subscribeAt instants)))"
    unfolding readingDeliveriesIn_def readingDeliveries_def [abs_def]
    by (rule deliveries_by_timer)
  also have "\<dots> = sum_list (map (\<lambda>t0. 1) instants)"
    unfolding subscribeAt_readers map_map comp_def
    by (intro arg_cong [where f = sum_list] map_cong refl one)
  also have "\<dots> = length instants"
    by (induction instants) simp_all
  finally show ?thesis .
qed

text \<open>
  C8 (amended). connectWebSocket has no guard against a second call: each call installs
  one more 5-second reading timer. After subscriptions made at any instants up to a
  time a, every 5-second interval from a on delivers as many readings to the callback
  as there were subscriptions: two after subscribing twice, one after subscribing once.
\<close>

theorem connectWebSocket_not_idempotent:
  "(list_all (\<lambda>t0. t0 \<le> a) instants \<longrightarrow>
      readingDeliveriesIn (subscribeAt instants) a (a + 5000) = length instants)
   \<and> (t0 \<le> a \<and> t1 \<le> a \<longrightarrow>
      readingDeliveriesIn (connectWebSocket t1 (connectWebSocket t0 [])) a (a + 5000) = 2
      \<and> readingDeliveriesIn (connectWebSocket t0 []) a (a + 5000) = 1)"
proof (intro conjI impI)
  assume "list_all (\<lambda>t0. t0 \<le> a) instants"
  then show "readingDeliveriesIn (subscribeAt instants) a (a + 5000) = length instants"
    by (rule readingDeliveriesIn_subscribeAt)
next
  assume h: "t0 \<le> a \<and> t1 \<le> a"
  then have "list_all (\<lambda>t0. t0 \<le> a) [t0, t1]" by simp
  from readingDeliveriesIn_subscribeAt [OF this]
  show "readingDeliveriesIn (connectWebSocket t1 (connectWebSocket t0 [])) a (a + 5000) = 2"
    by (simp add: subscribeAt_def)
next
  assume h: "t0 \<le> a \<and> t1 \<le> a"
  then have "list_all (\<lambda>t0. t0 \<le> a) [t0]" by simp
  from readingDeliveriesIn_subscribeAt [OF this]
  show "readingDeliveriesIn (connectWebSocket t0 []) a (a + 5000) = 1"
    by (simp add: subscribeAt_def)
qed

theorem connectWebSocket_not_idempotent_witness:
  "list_all (\<lambda>t0. t0 \<le> 7000) [0, 1000, 7000 :: nat]
   \<and> readingDeliveriesIn (subscribeAt [0, 1000, 7000]) 7000 12000 = 3
   \<and> (0::nat) \<le> 7000 \<and> (1000::nat) \<le> 7000
   \<and> readingDeliveriesIn (connectWebSocket 1000 (connectWebSocket 0 [])) 7000 12000 = 2
   \<and> readingDeliveriesIn (connectWebSocket 0 []) 7000 12000 = 1"
  using connectWebSocket_not_idempotent [of 7000 "[0, 1000, 7000]" 0 1000]
  by simp

text \<open>
  The claim as first stated has a second subscription change nothing. With both
  subscriptions made at time 0, the callback runs twice at time 5000, and twice in the
  interval up to 5000, where one subscription gives one delivery.
\<close>

theorem connectWebSocket_twice_counterexample:
  "readingDeliveries (connectWebSocket 0 (connectWebSocket 0 [])) 5000 = 2
   \<and> readingDeliveries (connectWebSocket 0 []) 5000 = 1
   \<and> readingDeliveriesIn (connectWebSocket 0 (connectWebSocket 0 [])) 0 5000
       \<noteq> readingDeliveriesIn (connectWebSocket 0 []) 0 5000"
proof -
  have a: "readingDeliveries (connectWebSocket 0 (connectWebSocket 0 [])) 5000 = 2"
    by (simp add: readingDeliveries_def connectWebSocket_def fires_def)
  have b: "readingDeliveries (connectWebSocket 0 []) 5000 = 1"
    by (simp add: readingDeliveries_def connectWebSocket_def fires_def)
  have "readingDeliveriesIn (subscribeAt [0, 0]) 0 (0 + 5000) = length [0, 0 :: nat]"
    by (rule readingDeliveriesIn_subscribeAt) simp
  then have c: "readingDeliveriesIn (connectWebSocket 0 (connectWebSocket 0 [])) 0 5000 = 2"
    by (simp add: subscribeAt_def)
  have "readingDeliveriesIn (subscribeAt [0]) 0 (0 + 5000) = length [0 :: nat]"
    by (rule readingDeliveriesIn_subscribeAt) simp
  then have d: "readingDeliveriesIn (connectWebSocket 0 []) 0 5000 = 1"
    by (simp add: subscribeAt_def)
  from a b c d show ?thesis by simp
qed

subsection \<open>Worked examples\<close>

text \<open>
  The boundaries of the two threshold tests, a location name that is a property of
  \<open>Object.prototype\<close>, and the order of \<open>Object.entries\<close>.
\<close>

lemma cyclonic_boundary_examples:
  "locationAnomalies ''A'' [weatherReading ''A'' 60] = []"
  "map p_probability (locationAnomalies ''A'' [weatherReading ''A'' 60.0001])
     = [Finite (1 / 400000)]"
  by (simp_all add: locationAnomalies_def weatherReading_def tideAnomalies_def
        windAnomalies_def qualityAnomalies_def)

lemma pollution_boundary_examples:
  "locationAnomalies ''A'' [qualityReading ''A'' 40] = []"
  "map p_probability (locationAnomalies ''A'' [qualityReading ''A'' 39.9999])
     = [Finite (1 / 400000)]"
  by (simp_all add: locationAnomalies_def qualityReading_def tideAnomalies_def
        windAnomalies_def qualityAnomalies_def)

lemma detectAnomalies_prototype_key:
  "detectAnomalies [weatherReading ''constructor'' 100] = Inl TypeError"
  by (simp add: detectAnomalies_def weatherReading_def objectPrototypeKeys_def)

lemma objectEntries_order_example:
  "map fst (objectEntries [(''b'', 1::nat), (''10'', 2), (''2'', 3), (''01'', 4)])
     = [''2'', ''10'', ''b'', ''01'']"
  by (simp add: objectEntries_def isArrayIndex_def isDigit_def decimalValue_def
        digitValue_def)

end
